theory Spec2Isabelle
  imports Main
begin

section \<open>The falling-emojis board engine\<close>

text \<open>
  The repository holds two versions of the game page: \<^verbatim>\<open>mini-app/app/page.tsx\<close> (with piece
  types, levels, lines and a drop interval) and the file \<^verbatim>\<open>unnamed/part_000\<close> (shapes only, a
  flat score). Both are embedded. Constants of \<^verbatim>\<open>page.tsx\<close> keep the source's names;
  constants of \<^verbatim>\<open>part_000\<close> carry the suffix \<open>0\<close> where the two files use the same name for
  different code.

  JavaScript numbers are modelled as \<open>int\<close> (the game only ever computes small integers), a
  \<^verbatim>\<open>number[][]\<close> as a list of rows. A React component closes over the state of the render it
  was created in: every handler reads the snapshot \<open>s\<close> and queues its updates, which are
  applied in order. Handlers are therefore functions from the snapshot to the next state, and
  the helpers they call take the snapshot \<open>s\<close> (what the closure reads) and the pending state
  \<open>q\<close> (what the setters have queued so far).
\<close>

type_synonym matrix = "int list list"

datatype Stage = Welcome | Game | Results

subsection \<open>Constants\<close>

definition ROWS :: nat where "ROWS = 20"
definition COLS :: nat where "COLS = 10"

definition BOARD_WIDTH :: nat where "BOARD_WIDTH = 10"
definition BOARD_HEIGHT :: nat where "BOARD_HEIGHT = 20"
definition EMPTY_CELL :: int where "EMPTY_CELL = 0"

text \<open>\<^verbatim>\<open>SHAPES\<close> of \<^verbatim>\<open>page.tsx\<close>: seven 4x4 matrices.\<close>

definition SHAPES :: "matrix list" where
  "SHAPES =
    [ [[0,0,0,0],[1,1,1,1],[0,0,0,0],[0,0,0,0]],
      [[0,0,0,0],[0,2,2,0],[0,2,2,0],[0,0,0,0]],
      [[0,0,0,0],[3,3,3,0],[0,3,0,0],[0,0,0,0]],
      [[0,0,0,0],[0,4,4,0],[4,4,0,0],[0,0,0,0]],
      [[0,0,0,0],[5,5,0,0],[0,5,5,0],[0,0,0,0]],
      [[0,0,0,0],[6,6,6,0],[6,0,0,0],[0,0,0,0]],
      [[0,0,0,0],[7,7,7,0],[0,0,7,0],[0,0,0,0]] ]"

text \<open>\<^verbatim>\<open>SHAPES\<close> of \<^verbatim>\<open>part_000\<close>: tight bounding boxes.\<close>

definition SHAPES0 :: "matrix list" where
  "SHAPES0 =
    [ [[0,0,0,0],[1,1,1,1],[0,0,0,0],[0,0,0,0]],
      [[2,2],[2,2]],
      [[0,3,0],[3,3,3],[0,0,0]],
      [[0,4,4],[4,4,0],[0,0,0]],
      [[5,5,0],[0,5,5],[0,0,0]],
      [[6,0,0],[6,6,6],[0,0,0]],
      [[0,0,7],[7,7,7],[0,0,0]] ]"

subsection \<open>Matrices\<close>

text \<open>\<^verbatim>\<open>Array.from({ length: n }, () => Array(m).fill(0))\<close>.\<close>

definition zeros :: "nat \<Rightarrow> nat \<Rightarrow> matrix" where
  "zeros n m = replicate n (replicate m 0)"

text \<open>The assignment \<^verbatim>\<open>m[r][c] = v\<close>, for an index inside the matrix.\<close>

definition setCell :: "matrix \<Rightarrow> nat \<Rightarrow> nat \<Rightarrow> int \<Rightarrow> matrix" where
  "setCell m r c v = m[r := (m ! r)[c := v]]"

text \<open>
  \<^verbatim>\<open>rotateMatrix\<close> is the same function in both files (\<^verbatim>\<open>part_000\<close> lines 65-74,
  \<^verbatim>\<open>page.tsx\<close> lines 270-279): two nested loops over \<open>0..<N\<close> that store
  \<^verbatim>\<open>matrix[i][j]\<close> at \<^verbatim>\<open>result[j][N - 1 - i]\<close>. The reads are in range when every row has at
  least \<open>N\<close> entries, as in a square matrix.
\<close>

definition rotateMatrix :: "matrix \<Rightarrow> matrix" where
  "rotateMatrix matrix =
     (let N = length matrix in
      fold (\<lambda>i result.
              fold (\<lambda>j result. setCell result j (N - 1 - i) (matrix ! i ! j)) [0..<N] result)
           [0..<N] (zeros N N))"

definition square :: "matrix \<Rightarrow> bool" where
  "square m = list_all (\<lambda>row. length row = length m) m"

subsection \<open>State of \<^verbatim>\<open>page.tsx\<close>\<close>

record piece =
  pshape :: matrix
  ptype :: int
  px :: int
  py :: int

record nextp =
  nshape :: matrix
  ntype :: int

record state =
  stage :: Stage
  board :: matrix
  currentPiece :: "piece option"
  nextPiece :: "nextp option"
  score :: int
  linesCleared :: int
  level :: int
  dropInterval :: int
  isPaused :: bool
  highScore :: int

subsection \<open>State of \<^verbatim>\<open>part_000\<close>\<close>

record piece0 =
  shape0 :: matrix
  x0 :: int
  y0 :: int

record state0 =
  stage0 :: Stage
  board0 :: matrix
  currentPiece0 :: "piece0 option"
  nextPiece0 :: "matrix option"
  score0 :: int
  highScore0 :: int
  paused0 :: bool

text \<open>
  A board of the fixed size: \<open>ROWS\<close> rows of \<open>COLS\<close> cells. \<^verbatim>\<open>startGame\<close> creates such a
  board and every update keeps the size, so the guarded reads \<^verbatim>\<open>board[boardY][boardX]\<close> below
  are in range; statements about the content of a board assume \<open>wf_board\<close>.
\<close>

definition wf_board :: "matrix \<Rightarrow> bool" where
  "wf_board b = (length b = ROWS \<and> list_all (\<lambda>row. length row = COLS) b)"

subsection \<open>Collision\<close>

text \<open>
  \<^verbatim>\<open>checkCollision(piece, x, y)\<close> of \<^verbatim>\<open>page.tsx\<close> (lines 319-341); \<open>brd\<close> is the
  \<^verbatim>\<open>board\<close> the closure reads. The loops return at the first nonzero shape cell that is out
  of the columns, below the last row, or on an occupied cell.
\<close>

definition checkCollision :: "matrix \<Rightarrow> piece \<Rightarrow> int \<Rightarrow> int \<Rightarrow> bool" where
  "checkCollision brd p x y =
     (let shape = pshape p in
      list_ex (\<lambda>i. list_ex (\<lambda>j.
          shape ! i ! j \<noteq> 0 \<and>
          (let boardX = x + int j; boardY = y + int i in
             boardX < 0 \<or> boardX \<ge> int COLS \<or> boardY \<ge> int ROWS \<or>
             (boardY \<ge> 0 \<and> brd ! nat boardY ! nat boardX \<noteq> 0)))
        [0..<length (shape ! i)]) [0..<length shape])"

text \<open>\<^verbatim>\<open>checkCollision(shape, x, y)\<close> of \<^verbatim>\<open>part_000\<close> (lines 146-158).\<close>

definition checkCollision0 :: "matrix \<Rightarrow> matrix \<Rightarrow> int \<Rightarrow> int \<Rightarrow> bool" where
  "checkCollision0 brd shape x y =
     list_ex (\<lambda>r. list_ex (\<lambda>c.
          shape ! r ! c \<noteq> EMPTY_CELL \<and>
          (let boardX = x + int c; boardY = y + int r in
             if boardX < 0 \<or> boardX \<ge> int BOARD_WIDTH then True
             else if boardY \<ge> int BOARD_HEIGHT then True
             else boardY \<ge> 0 \<and> brd ! nat boardY ! nat boardX \<noteq> EMPTY_CELL))
        [0..<length (shape ! r)]) [0..<length shape]"

subsection \<open>Spawning\<close>

text \<open>
  \<^verbatim>\<open>spawnPiece\<close> of \<^verbatim>\<open>page.tsx\<close> (lines 252-268). The two arguments \<open>rnd1\<close> and \<open>rnd2\<close> are
  the two values of \<^verbatim>\<open>Math.floor(Math.random() * SHAPES.length)\<close>, in \<open>0..<7\<close>. The function
  only calls setters, so it maps the pending state to the pending state.
\<close>

definition spawnPiece :: "nat \<Rightarrow> nat \<Rightarrow> state \<Rightarrow> state" where
  "spawnPiece rnd1 rnd2 q =
     (let type = int rnd1 + 1;
          shape = SHAPES ! nat (type - 1);
          newPiece = \<lparr>pshape = shape, ptype = type, px = int (COLS div 2) - 2, py = 0\<rparr>;
          nextType = int rnd2 + 1
      in q\<lparr>currentPiece := Some newPiece,
            nextPiece := Some \<lparr>nshape = SHAPES ! nat (nextType - 1), ntype = nextType\<rparr>\<rparr>)"

text \<open>\<^verbatim>\<open>spawnPiece\<close> of \<^verbatim>\<open>part_000\<close> (lines 88-95).\<close>

definition spawnPiece0 :: "nat \<Rightarrow> nat \<Rightarrow> state0 \<Rightarrow> state0" where
  "spawnPiece0 rnd1 rnd2 q =
     (let shape = SHAPES0 ! rnd1;
          x = (int BOARD_WIDTH - int (length (shape ! 0))) div 2;
          y = - int (length shape);
          nextShape = SHAPES0 ! rnd2
      in q\<lparr>currentPiece0 := Some \<lparr>shape0 = shape, x0 = x, y0 = y\<rparr>,
            nextPiece0 := Some nextShape\<rparr>)"

subsection \<open>Locking and clearing lines, \<^verbatim>\<open>page.tsx\<close>\<close>

text \<open>
  The loop of \<^verbatim>\<open>lockPiece\<close> (lines 345-356) that builds \<^verbatim>\<open>newBoard\<close> from a copy of the
  board.
\<close>

definition lockCells :: "matrix \<Rightarrow> piece \<Rightarrow> matrix" where
  "lockCells brd p =
     (let shape = pshape p in
      fold (\<lambda>i newBoard.
              fold (\<lambda>j newBoard.
                      if shape ! i ! j = 0 then newBoard
                      else (let boardX = px p + int j; boardY = py p + int i in
                            if boardY \<ge> 0 \<and> boardY < int ROWS \<and> boardX \<ge> 0 \<and> boardX < int COLS
                            then setCell newBoard (nat boardY) (nat boardX) (ptype p)
                            else newBoard))
                   [0..<length (shape ! i)] newBoard)
           [0..<length shape] brd)"

text \<open>The indices pushed to \<^verbatim>\<open>fullRows\<close> (lines 363-368).\<close>

definition fullRows :: "matrix \<Rightarrow> nat list" where
  "fullRows newBoard = filter (\<lambda>i. list_all (\<lambda>cell. cell \<noteq> 0) (newBoard ! i)) [0..<ROWS]"

text \<open>
  \<^verbatim>\<open>newBoard.filter((_, idx) => !fullRows.includes(idx))\<close>.
\<close>

definition remainingRows :: "matrix \<Rightarrow> nat list \<Rightarrow> matrix" where
  "remainingRows newBoard fr =
     map (\<lambda>idx. newBoard ! idx) (filter (\<lambda>idx. idx \<notin> set fr) [0..<length newBoard])"

text \<open>
  \<^verbatim>\<open>clearLines(newBoard)\<close> (lines 362-382). \<^verbatim>\<open>level\<close> and \<^verbatim>\<open>linesCleared\<close> in the points
  and in the level test are read from the snapshot \<open>s\<close>; the setters with an updater function
  act on the pending state \<open>q\<close>.
\<close>

definition clearLines :: "state \<Rightarrow> matrix \<Rightarrow> state \<Rightarrow> state" where
  "clearLines s newBoard q =
     (let fr = fullRows newBoard in
      if length fr = 0 then q
      else
        (let cleared = int (length fr);
             newRows = replicate (length fr) (replicate COLS 0);
             remaining = remainingRows newBoard fr;
             updatedBoard = newRows @ remaining;
             q1 = q\<lparr>board := updatedBoard\<rparr>;
             points = cleared * 10 * level s;
             q2 = q1\<lparr>score := score q1 + points\<rparr>;
             q3 = q2\<lparr>linesCleared := linesCleared q2 + cleared\<rparr>
         in if (linesCleared s + cleared) mod 10 = 0
            then (let q4 = q3\<lparr>level := level q3 + 1\<rparr>
                  in q4\<lparr>dropInterval := max 200 (dropInterval q4 - 100)\<rparr>)
            else q3))"

text \<open>
  \<^verbatim>\<open>lockPiece\<close> (lines 343-360): the piece and the board are those of the snapshot.
\<close>

definition lockPiece :: "nat \<Rightarrow> nat \<Rightarrow> state \<Rightarrow> state \<Rightarrow> state" where
  "lockPiece rnd1 rnd2 s q =
     (case currentPiece s of
        None \<Rightarrow> q
      | Some cp \<Rightarrow>
          (let newBoard = lockCells (board s) cp;
               q1 = q\<lparr>board := newBoard\<rparr>;
               q2 = clearLines s newBoard q1
           in spawnPiece rnd1 rnd2 q2))"

subsection \<open>Commands, \<^verbatim>\<open>page.tsx\<close>\<close>

definition rotatePiece :: "state \<Rightarrow> state" where
  "rotatePiece s =
     (case currentPiece s of
        None \<Rightarrow> s
      | Some cp \<Rightarrow>
          (let rotated = rotateMatrix (pshape cp);
               newPiece = cp\<lparr>pshape := rotated\<rparr>
           in if \<not> checkCollision (board s) newPiece (px cp) (py cp)
              then s\<lparr>currentPiece := Some newPiece\<rparr>
              else s))"

definition movePiece :: "int \<Rightarrow> int \<Rightarrow> state \<Rightarrow> state" where
  "movePiece dx dy s =
     (case currentPiece s of
        None \<Rightarrow> s
      | Some cp \<Rightarrow>
          (let newX = px cp + dx; newY = py cp + dy
           in if \<not> checkCollision (board s) cp newX newY
              then s\<lparr>currentPiece := Some (cp\<lparr>px := newX, py := newY\<rparr>)\<rparr>
              else s))"

text \<open>\<^verbatim>\<open>dropPiece\<close> (lines 299-307) is the timer's tick and the soft drop.\<close>

definition dropPiece :: "nat \<Rightarrow> nat \<Rightarrow> state \<Rightarrow> state" where
  "dropPiece rnd1 rnd2 s =
     (case currentPiece s of
        None \<Rightarrow> s
      | Some cp \<Rightarrow>
          (let newY = py cp + 1
           in if \<not> checkCollision (board s) cp (px cp) newY
              then s\<lparr>currentPiece := Some (cp\<lparr>py := newY\<rparr>)\<rparr>
              else lockPiece rnd1 rnd2 s s))"

text \<open>
  The \<^verbatim>\<open>while\<close> loop of \<^verbatim>\<open>hardDrop\<close> (lines 311-314). It may run forever, so the result is
  an option: \<open>None\<close> is a loop that does not return.
\<close>

partial_function (option) dropLoop :: "matrix \<Rightarrow> piece \<Rightarrow> int \<Rightarrow> int option" where
  "dropLoop brd cp newY =
     (if \<not> checkCollision brd cp (px cp) (newY + 1)
      then dropLoop brd cp (newY + 1)
      else Some newY)"

declare dropLoop.simps [code]

text \<open>
  \<^verbatim>\<open>hardDrop\<close> (lines 309-317). \<^verbatim>\<open>lockPiece\<close> is called in the same render, so it locks
  the piece of the snapshot; the moved piece is only queued.
\<close>

definition hardDrop :: "nat \<Rightarrow> nat \<Rightarrow> state \<Rightarrow> state option" where
  "hardDrop rnd1 rnd2 s =
     (case currentPiece s of
        None \<Rightarrow> Some s
      | Some cp \<Rightarrow>
          (case dropLoop (board s) cp (py cp) of
             None \<Rightarrow> None
           | Some newY \<Rightarrow>
               Some (lockPiece rnd1 rnd2 s (s\<lparr>currentPiece := Some (cp\<lparr>py := newY\<rparr>)\<rparr>))))"

text \<open>The game-over effect (lines 229-236), run after a render with the state \<open>s\<close>.\<close>

definition gameOverEffect :: "state \<Rightarrow> state" where
  "gameOverEffect s =
     (if stage s \<noteq> Game then s
      else if list_ex (\<lambda>cell. cell \<noteq> 0) (board s ! 0)
      then (let q = s\<lparr>stage := Results\<rparr>
            in if score s > highScore s then q\<lparr>highScore := score s\<rparr> else q)
      else s)"

text \<open>\<^verbatim>\<open>startGame\<close> (lines 239-250).\<close>

definition startGame :: "nat \<Rightarrow> nat \<Rightarrow> state \<Rightarrow> state" where
  "startGame rnd1 rnd2 s =
     (let q = s\<lparr>board := zeros ROWS COLS, score := 0, linesCleared := 0, level := 1,
                dropInterval := 1000, isPaused := False, currentPiece := None,
                nextPiece := None\<rparr>;
          q1 = spawnPiece rnd1 rnd2 q
      in q1\<lparr>stage := Game\<rparr>)"

subsection \<open>Locking and clearing lines, \<^verbatim>\<open>part_000\<close>\<close>

text \<open>The two \<^verbatim>\<open>forEach\<close> loops of \<^verbatim>\<open>lockPiece\<close> (lines 162-172); the cell is written.\<close>

definition lockCells0 :: "matrix \<Rightarrow> piece0 \<Rightarrow> matrix" where
  "lockCells0 brd p =
     (let shape = shape0 p in
      fold (\<lambda>r newBoard.
              fold (\<lambda>c newBoard.
                      (let cell = shape ! r ! c in
                       if cell = EMPTY_CELL then newBoard
                       else (let boardX = x0 p + int c; boardY = y0 p + int r in
                             if boardY \<ge> 0 \<and> boardY < int BOARD_HEIGHT \<and>
                                boardX \<ge> 0 \<and> boardX < int BOARD_WIDTH
                             then setCell newBoard (nat boardY) (nat boardX) cell
                             else newBoard)))
                   [0..<length (shape ! r)] newBoard)
           [0..<length shape] brd)"

text \<open>
  \<^verbatim>\<open>clearLines(boardToCheck)\<close> (lines 179-185) builds \<^verbatim>\<open>finalBoard\<close> and returns the points
  only. \<open>finalBoard0\<close> is the value of the local \<^verbatim>\<open>finalBoard\<close>, which the function drops.
\<close>

definition finalBoard0 :: "matrix \<Rightarrow> matrix" where
  "finalBoard0 boardToCheck =
     (let newBoard = filter (\<lambda>row. list_ex (\<lambda>cell. cell = EMPTY_CELL) row) boardToCheck;
          linesCleared = int BOARD_HEIGHT - int (length newBoard);
          emptyRows = replicate (nat linesCleared) (replicate BOARD_WIDTH EMPTY_CELL)
      in emptyRows @ newBoard)"

definition clearLines0 :: "matrix \<Rightarrow> int" where
  "clearLines0 boardToCheck =
     (let newBoard = filter (\<lambda>row. list_ex (\<lambda>cell. cell = EMPTY_CELL) row) boardToCheck;
          linesCleared = int BOARD_HEIGHT - int (length newBoard)
      in linesCleared * 100)"

text \<open>\<^verbatim>\<open>lockPiece\<close> (lines 160-177): \<^verbatim>\<open>setBoard(newBoard)\<close> stores the board as locked.\<close>

definition lockPiece0 :: "nat \<Rightarrow> nat \<Rightarrow> state0 \<Rightarrow> state0 \<Rightarrow> state0" where
  "lockPiece0 rnd1 rnd2 s q =
     (case currentPiece0 s of
        None \<Rightarrow> q
      | Some cp \<Rightarrow>
          (let newBoard = lockCells0 (board0 s) cp;
               cleared = clearLines0 newBoard;
               q1 = q\<lparr>board0 := newBoard\<rparr>;
               q2 = q1\<lparr>score0 := score0 q1 + cleared\<rparr>
           in spawnPiece0 rnd1 rnd2 q2))"

subsection \<open>Commands, \<^verbatim>\<open>part_000\<close>\<close>

definition rotatePiece0 :: "state0 \<Rightarrow> state0" where
  "rotatePiece0 s =
     (case currentPiece0 s of
        None \<Rightarrow> s
      | Some cp \<Rightarrow>
          (let rotated = rotateMatrix (shape0 cp)
           in if \<not> checkCollision0 (board0 s) rotated (x0 cp) (y0 cp)
              then s\<lparr>currentPiece0 := Some (cp\<lparr>shape0 := rotated\<rparr>)\<rparr>
              else s))"

text \<open>
  \<^verbatim>\<open>movePiece(dx, dy)\<close> (lines 114-124); the timer and the down arrow call it with
  \<open>(0, 1)\<close>, the left and right arrows with \<open>(-1, 0)\<close> and \<open>(1, 0)\<close>.
\<close>

definition movePiece0 :: "nat \<Rightarrow> nat \<Rightarrow> int \<Rightarrow> int \<Rightarrow> state0 \<Rightarrow> state0" where
  "movePiece0 rnd1 rnd2 dx dy s =
     (case currentPiece0 s of
        None \<Rightarrow> s
      | Some cp \<Rightarrow>
          (let newX = x0 cp + dx; newY = y0 cp + dy
           in if \<not> checkCollision0 (board0 s) (shape0 cp) newX newY
              then s\<lparr>currentPiece0 := Some (cp\<lparr>x0 := newX, y0 := newY\<rparr>)\<rparr>
              else if dy = 1 then lockPiece0 rnd1 rnd2 s s
              else s))"

partial_function (option) dropLoop0 :: "matrix \<Rightarrow> piece0 \<Rightarrow> int \<Rightarrow> int option" where
  "dropLoop0 brd cp newY =
     (if \<not> checkCollision0 brd (shape0 cp) (x0 cp) (newY + 1)
      then dropLoop0 brd cp (newY + 1)
      else Some newY)"

declare dropLoop0.simps [code]

text \<open>
  \<^verbatim>\<open>hardDrop\<close> (lines 136-144), bound to the space bar. \<^verbatim>\<open>dropPiece\<close> (lines 126-134)
  has the same body and no caller.
\<close>

definition hardDrop0 :: "nat \<Rightarrow> nat \<Rightarrow> state0 \<Rightarrow> state0 option" where
  "hardDrop0 rnd1 rnd2 s =
     (case currentPiece0 s of
        None \<Rightarrow> Some s
      | Some cp \<Rightarrow>
          (case dropLoop0 (board0 s) cp (y0 cp) of
             None \<Rightarrow> None
           | Some newY \<Rightarrow>
               Some (lockPiece0 rnd1 rnd2 s (s\<lparr>currentPiece0 := Some (cp\<lparr>y0 := newY\<rparr>)\<rparr>))))"

definition dropPiece0 :: "nat \<Rightarrow> nat \<Rightarrow> state0 \<Rightarrow> state0 option" where
  "dropPiece0 rnd1 rnd2 s =
     (case currentPiece0 s of
        None \<Rightarrow> Some s
      | Some cp \<Rightarrow>
          (case dropLoop0 (board0 s) cp (y0 cp) of
             None \<Rightarrow> None
           | Some newY \<Rightarrow>
               Some (lockPiece0 rnd1 rnd2 s (s\<lparr>currentPiece0 := Some (cp\<lparr>y0 := newY\<rparr>)\<rparr>))))"

text \<open>\<^verbatim>\<open>startGame\<close> (lines 97-104).\<close>

definition startGame0 :: "nat \<Rightarrow> nat \<Rightarrow> state0 \<Rightarrow> state0" where
  "startGame0 rnd1 rnd2 s =
     (let emptyBoard = zeros BOARD_HEIGHT BOARD_WIDTH;
          q = s\<lparr>board0 := emptyBoard, score0 := 0, paused0 := False\<rparr>;
          q1 = spawnPiece0 rnd1 rnd2 q
      in q1\<lparr>stage0 := Game\<rparr>)"

text \<open>The effect on \<^verbatim>\<open>currentPiece\<close> (lines 275-281), run after a render with the state \<open>s\<close>.\<close>

definition gameOverEffect0 :: "state0 \<Rightarrow> state0" where
  "gameOverEffect0 s =
     (case currentPiece0 s of
        None \<Rightarrow> s
      | Some cp \<Rightarrow>
          if checkCollision0 (board0 s) (shape0 cp) (x0 cp) (y0 cp)
          then (let q = s\<lparr>stage0 := Results\<rparr>
                in if score0 s > highScore0 s then q\<lparr>highScore0 := score0 s\<rparr> else q)
          else s)"


section \<open>Notions used in the statements and proofs\<close>

text \<open>
  A matrix of \<open>n\<close> rows with \<open>m\<close> cells each.
\<close>

definition dims :: "nat \<Rightarrow> nat \<Rightarrow> matrix \<Rightarrow> bool" where
  "dims n m b = (length b = n \<and> (\<forall>r<n. length (b ! r) = m))"

text \<open>
  The result of \<^verbatim>\<open>rotateMatrix\<close> after the outer loop has handled the rows \<open>0..<k\<close>.
\<close>

definition rotRows :: "matrix \<Rightarrow> nat \<Rightarrow> matrix" where
  "rotRows M k =
     fold (\<lambda>i result.
              fold (\<lambda>j result. setCell result j (length M - 1 - i) (M ! i ! j)) [0..<length M] result)
           [0..<k] (zeros (length M) (length M))"

text \<open>
  The inner loop of a lock for the shape row \<open>i\<close>, after the columns \<open>0..<n\<close>: \<open>V j\<close> is the
  shape cell, \<open>W j\<close> the value written for it.
\<close>

definition writeRow :: "int \<Rightarrow> int \<Rightarrow> nat \<Rightarrow> (nat \<Rightarrow> int) \<Rightarrow> (nat \<Rightarrow> int) \<Rightarrow> nat \<Rightarrow> matrix \<Rightarrow> matrix" where
  "writeRow x y i V W n res =
     fold (\<lambda>j nb. if V j = 0 then nb
                  else if y + int i \<ge> 0 \<and> y + int i < int ROWS \<and> x + int j \<ge> 0 \<and> x + int j < int COLS
                       then setCell nb (nat (y + int i)) (nat (x + int j)) (W j)
                       else nb) [0..<n] res"

text \<open>
  The outer loop of a lock after the shape rows \<open>0..<k\<close>; \<open>L i\<close> is the length of row \<open>i\<close>.
\<close>

definition writeRows :: "int \<Rightarrow> int \<Rightarrow> (nat \<Rightarrow> nat) \<Rightarrow> (nat \<Rightarrow> nat \<Rightarrow> int) \<Rightarrow> (nat \<Rightarrow> nat \<Rightarrow> int) \<Rightarrow> nat \<Rightarrow> matrix \<Rightarrow> matrix" where
  "writeRows x y L V W k res = fold (\<lambda>i nb. writeRow x y i (V i) (W i) (L i) nb) [0..<k] res"

text \<open>
  The marker of a shape at a position relative to the anchor, \<open>0\<close> outside the shape.
\<close>

definition shapeCell :: "matrix \<Rightarrow> int \<Rightarrow> int \<Rightarrow> int" where
  "shapeCell shape i j =
     (if 0 \<le> i \<and> nat i < length shape \<and> 0 \<le> j \<and> nat j < length (shape ! nat i)
      then shape ! nat i ! nat j else 0)"

text \<open>
  A shape with at least one nonzero cell.
\<close>

definition hasCell :: "matrix \<Rightarrow> bool" where
  "hasCell shape = list_ex (\<lambda>row. list_ex (\<lambda>cell. cell \<noteq> 0) row) shape"

text \<open>
  A full row: every cell is non-empty.
\<close>

definition isFull :: "int list \<Rightarrow> bool" where
  "isFull row = list_all (\<lambda>cell. cell \<noteq> 0) row"

text \<open>
  A board without its full rows, padded at the top with as many empty rows.
\<close>

definition clearedBoard :: "matrix \<Rightarrow> matrix" where
  "clearedBoard nb =
     replicate (length (filter isFull nb)) (replicate COLS 0) @ filter (\<lambda>row. \<not> isFull row) nb"

text \<open>
  The number of rows that are full in the board \<open>after\<close> a lock and were not full \<open>before\<close> it:
  the rows the lock completes.
\<close>

definition completedRows :: "matrix \<Rightarrow> matrix \<Rightarrow> nat" where
  "completedRows before after =
     length (filter (\<lambda>i. \<not> isFull (before ! i) \<and> isFull (after ! i)) [0..<length after])"

text \<open>
  A piece of \<^verbatim>\<open>part_000\<close> read as a piece of \<^verbatim>\<open>page.tsx\<close>.
\<close>

definition asPiece :: "piece0 \<Rightarrow> piece" where
  "asPiece c = \<lparr>pshape = shape0 c, ptype = 0, px = x0 c, py = y0 c\<rparr>"

subsection \<open>Concrete boards, pieces and states\<close>

text \<open>
  \<open>stackBoard\<close> has its two bottom rows filled except for the last two columns; in
  \<open>stackState\<close> and \<open>stackState0\<close> an O piece sits in that gap, so that the next tick locks it
  and completes both rows. \<open>topBoard\<close> has an occupied cell in row 0. \<open>wallPiece\<close> is an upright
  I piece in the last column, \<open>edgePiece\<close> a T piece whose anchor lies above and left of the
  board, \<open>blankPiece\<close> a shape without any cell.
\<close>

definition emptyBoard :: matrix where "emptyBoard = zeros ROWS COLS"

definition stackBoard :: matrix where
  "stackBoard = replicate 18 (replicate 10 0) @
     [[1,1,1,1,1,1,1,1,0,0], [1,1,1,1,1,1,1,1,0,0]]"

definition stackState :: state where
  "stackState = \<lparr>stage = Game, board = stackBoard,
     currentPiece = Some \<lparr>pshape = SHAPES ! 1, ptype = 2, px = 7, py = 17\<rparr>,
     nextPiece = Some \<lparr>nshape = SHAPES ! 0, ntype = 1\<rparr>,
     score = 0, linesCleared = 9, level = 1, dropInterval = 1000, isPaused = False,
     highScore = 0\<rparr>"

definition stackState0 :: state0 where
  "stackState0 = \<lparr>stage0 = Game, board0 = stackBoard,
     currentPiece0 = Some \<lparr>shape0 = SHAPES0 ! 1, x0 = 8, y0 = 18\<rparr>,
     nextPiece0 = Some (SHAPES0 ! 0),
     score0 = 0, highScore0 = 0, paused0 = False\<rparr>"

definition demoPiece :: piece where
  "demoPiece = \<lparr>pshape = SHAPES ! 2, ptype = 3, px = 3, py = 0\<rparr>"

definition demoPiece0 :: piece0 where
  "demoPiece0 = \<lparr>shape0 = SHAPES0 ! 2, x0 = 3, y0 = 0\<rparr>"

definition edgePiece :: piece where
  "edgePiece = \<lparr>pshape = SHAPES ! 2, ptype = 3, px = - 1, py = - 2\<rparr>"

definition edgePiece0 :: piece0 where
  "edgePiece0 = \<lparr>shape0 = SHAPES0 ! 2, x0 = 9, y0 = - 1\<rparr>"

definition blankPiece :: piece where
  "blankPiece = \<lparr>pshape = replicate 4 (replicate 4 0), ptype = 1, px = 3, py = 0\<rparr>"

definition blankPiece0 :: piece0 where
  "blankPiece0 = \<lparr>shape0 = replicate 2 (replicate 2 0), x0 = 4, y0 = - 2\<rparr>"

definition openState :: state where
  "openState = \<lparr>stage = Game, board = emptyBoard, currentPiece = Some demoPiece,
     nextPiece = Some \<lparr>nshape = SHAPES ! 0, ntype = 1\<rparr>,
     score = 0, linesCleared = 0, level = 1, dropInterval = 1000, isPaused = False,
     highScore = 0\<rparr>"

definition openState0 :: state0 where
  "openState0 = \<lparr>stage0 = Game, board0 = emptyBoard, currentPiece0 = Some demoPiece0,
     nextPiece0 = Some (SHAPES0 ! 0), score0 = 0, highScore0 = 0, paused0 = False\<rparr>"

definition wallPiece :: piece where
  "wallPiece = \<lparr>pshape = rotateMatrix (SHAPES ! 0), ptype = 1, px = 7, py = 0\<rparr>"

definition wallPiece0 :: piece0 where
  "wallPiece0 = \<lparr>shape0 = rotateMatrix (SHAPES0 ! 0), x0 = 7, y0 = 0\<rparr>"

definition wallState :: state where
  "wallState = openState\<lparr>currentPiece := Some wallPiece\<rparr>"

definition wallState0 :: state0 where
  "wallState0 = openState0\<lparr>currentPiece0 := Some wallPiece0\<rparr>"

definition topBoard :: matrix where
  "topBoard = [0,0,0,3,3,3,0,0,0,0] # replicate 19 [1,0,1,0,1,0,1,0,1,0]"

definition topState :: state where
  "topState = openState\<lparr>board := topBoard, score := 120, highScore := 100\<rparr>"

definition topState0 :: state0 where
  "topState0 = openState0\<lparr>board0 := topBoard, score0 := 300, highScore0 := 100\<rparr>"

section \<open>Lemmas\<close>

subsection \<open>Rotation\<close>

lemma fold_upt_Suc: "fold f [0..<Suc n] a = f n (fold f [0..<n] a)"
  by simp

lemma dims_setCell: "dims n m b \<Longrightarrow> dims n m (setCell b r c v)"
  by (cases "r < length b") (auto simp: dims_def setCell_def nth_list_update)

lemma nth_setCell:
  "dims n m b \<Longrightarrow> a < n \<Longrightarrow> k < m \<Longrightarrow>
   setCell b r c v ! a ! k = (if a = r \<and> k = c then v else b ! a ! k)"
  by (cases "r < length b") (auto simp: dims_def setCell_def nth_list_update)

lemma dims_zeros: "dims n m (zeros n m)"
  by (simp add: dims_def zeros_def)

lemma rot_inner_dims:
  "dims N N res \<Longrightarrow> dims N N (fold (\<lambda>j result. setCell result j c (g j)) [0..<n] res)"
  by (induction n) (simp_all add: dims_setCell)

lemma rot_inner_nth:
  "dims N N res \<Longrightarrow> a < N \<Longrightarrow> b < N \<Longrightarrow>
   fold (\<lambda>j result. setCell result j c (g j)) [0..<n] res ! a ! b =
     (if a < n \<and> b = c then g a else res ! a ! b)"
proof (induction n)
  case 0
  then show ?case by simp
next
  case (Suc n)
  have d: "dims N N (fold (\<lambda>j result. setCell result j c (g j)) [0..<n] res)"
    using Suc.prems(1) by (rule rot_inner_dims)
  show ?case
    using Suc by (auto simp: nth_setCell [OF d] less_Suc_eq)
qed

lemma rotRows_dims: "dims (length M) (length M) (rotRows M k)"
  unfolding rotRows_def by (induction k) (simp_all add: dims_zeros rot_inner_dims)

lemma rotRows_nth:
  "k \<le> length M \<Longrightarrow> a < length M \<Longrightarrow> b < length M \<Longrightarrow>
   rotRows M k ! a ! b = (if length M - 1 - b < k then M ! (length M - 1 - b) ! a else 0)"
proof (induction k)
  case 0
  then show ?case by (simp add: rotRows_def zeros_def)
next
  case (Suc k)
  have step: "rotRows M (Suc k) =
      fold (\<lambda>j result. setCell result j (length M - 1 - k) (M ! k ! j)) [0..<length M] (rotRows M k)"
    by (simp add: rotRows_def)
  have ih: "rotRows M k ! a ! b = (if length M - 1 - b < k then M ! (length M - 1 - b) ! a else 0)"
    using Suc by simp
  have eq: "b = length M - 1 - k \<longleftrightarrow> length M - 1 - b = k"
    using Suc.prems by arith
  show ?case
    unfolding step
    using Suc.prems eq
    by (simp add: rot_inner_nth [OF rotRows_dims] ih less_Suc_eq) 
qed

lemma rotateMatrix_rotRows: "rotateMatrix M = rotRows M (length M)"
  by (simp add: rotateMatrix_def rotRows_def Let_def)

lemma length_rotateMatrix: "length (rotateMatrix M) = length M"
  using rotRows_dims [of M "length M"] by (simp add: rotateMatrix_rotRows dims_def)

lemma length_rotateMatrix_row: "a < length M \<Longrightarrow> length (rotateMatrix M ! a) = length M"
  using rotRows_dims [of M "length M"] by (simp add: rotateMatrix_rotRows dims_def)

lemma rotateMatrix_nth:
  "a < length M \<Longrightarrow> b < length M \<Longrightarrow> rotateMatrix M ! a ! b = M ! (length M - 1 - b) ! a"
proof -
  assume a: "a < length M" and b: "b < length M"
  then have "length M - 1 - b < length M" by arith
  with a b show ?thesis by (simp add: rotateMatrix_rotRows rotRows_nth)
qed

lemma square_rotateMatrix: "square (rotateMatrix M)"
  by (simp add: square_def list_all_length length_rotateMatrix length_rotateMatrix_row)

lemma rotate4: 
  assumes "square M"
  shows "rotateMatrix (rotateMatrix (rotateMatrix (rotateMatrix M))) = M"
proof (rule nth_equalityI)
  show "length (rotateMatrix (rotateMatrix (rotateMatrix (rotateMatrix M)))) = length M"
    by (simp add: length_rotateMatrix)
next
  fix a assume "a < length (rotateMatrix (rotateMatrix (rotateMatrix (rotateMatrix M))))"
  then have a: "a < length M" by (simp add: length_rotateMatrix)
  have la: "length (M ! a) = length M"
    using assms a by (simp add: square_def list_all_length)
  show "rotateMatrix (rotateMatrix (rotateMatrix (rotateMatrix M))) ! a = M ! a"
  proof (rule nth_equalityI)
    show "length (rotateMatrix (rotateMatrix (rotateMatrix (rotateMatrix M))) ! a) = length (M ! a)"
      using a la by (simp add: length_rotateMatrix length_rotateMatrix_row)
  next
    fix b assume "b < length (rotateMatrix (rotateMatrix (rotateMatrix (rotateMatrix M))) ! a)"
    then have b: "b < length M"
      using a by (simp add: length_rotateMatrix length_rotateMatrix_row)
    have "length M - 1 - (length M - 1 - a) = a" "length M - 1 - (length M - 1 - b) = b"
      "length M - 1 - a < length M" "length M - 1 - b < length M"
      using a b by arith+
    then show "rotateMatrix (rotateMatrix (rotateMatrix (rotateMatrix M))) ! a ! b = M ! a ! b"
      using a b by (simp add: rotateMatrix_nth length_rotateMatrix)
  qed
qed

subsection \<open>Locking a piece\<close>

lemma writeRow_dims: "dims R C res \<Longrightarrow> dims R C (writeRow x y i V W n res)"
  unfolding writeRow_def by (induction n) (simp_all add: dims_setCell)

lemma writeRow_nth:
  "dims ROWS COLS res \<Longrightarrow> r < ROWS \<Longrightarrow> c < COLS \<Longrightarrow>
   writeRow x y i V W n res ! r ! c =
     (if int r = y + int i \<and> 0 \<le> int c - x \<and> nat (int c - x) < n \<and> V (nat (int c - x)) \<noteq> 0
      then W (nat (int c - x)) else res ! r ! c)"
proof (induction n)
  case 0
  then show ?case by (simp add: writeRow_def)
next
  case (Suc n)
  have d: "dims ROWS COLS (writeRow x y i V W n res)"
    using Suc.prems(1) by (rule writeRow_dims)
  have step: "writeRow x y i V W (Suc n) res =
      (if V n = 0 then writeRow x y i V W n res
       else if y + int i \<ge> 0 \<and> y + int i < int ROWS \<and> x + int n \<ge> 0 \<and> x + int n < int COLS
            then setCell (writeRow x y i V W n res) (nat (y + int i)) (nat (x + int n)) (W n)
            else writeRow x y i V W n res)"
    by (simp add: writeRow_def)
  have ih: "writeRow x y i V W n res ! r ! c =
     (if int r = y + int i \<and> 0 \<le> int c - x \<and> nat (int c - x) < n \<and> V (nat (int c - x)) \<noteq> 0
      then W (nat (int c - x)) else res ! r ! c)"
    using Suc by simp
  have last: "nat (int c - x) < Suc n \<longleftrightarrow> nat (int c - x) < n \<or> nat (int c - x) = n"
    by arith
  show ?case
  proof (cases "int r = y + int i \<and> 0 \<le> int c - x \<and> nat (int c - x) = n")
    case True
    then have e: "nat (y + int i) = r" "nat (x + int n) = c" "nat (int c - x) = n" by linarith+
    have inb: "y + int i \<ge> 0 \<and> y + int i < int ROWS \<and> x + int n \<ge> 0 \<and> x + int n < int COLS"
      using True Suc.prems by auto
    show ?thesis
      unfolding step using True Suc.prems inb e
      by (simp add: nth_setCell [OF d] ih)
  next
    case False
    have rhs: "(int r = y + int i \<and> 0 \<le> int c - x \<and> nat (int c - x) < Suc n \<and> V (nat (int c - x)) \<noteq> 0)
             = (int r = y + int i \<and> 0 \<le> int c - x \<and> nat (int c - x) < n \<and> V (nat (int c - x)) \<noteq> 0)"
      using False by (auto simp: less_Suc_eq)
    have miss: "\<not> (r = nat (y + int i) \<and> c = nat (x + int n))"
      if "y + int i \<ge> 0 \<and> y + int i < int ROWS \<and> x + int n \<ge> 0 \<and> x + int n < int COLS"
      using False that by linarith
    have "writeRow x y i V W (Suc n) res ! r ! c = writeRow x y i V W n res ! r ! c"
      unfolding step using miss Suc.prems by (auto simp: nth_setCell [OF d])
    then show ?thesis
      unfolding rhs ih by simp
  qed
qed

lemma writeRows_dims: "dims R C res \<Longrightarrow> dims R C (writeRows x y L V W k res)"
  unfolding writeRows_def by (induction k) (simp_all add: writeRow_dims)

lemma writeRows_nth:
  "dims ROWS COLS res \<Longrightarrow> r < ROWS \<Longrightarrow> c < COLS \<Longrightarrow>
   writeRows x y L V W k res ! r ! c =
     (if 0 \<le> int r - y \<and> nat (int r - y) < k \<and> 0 \<le> int c - x \<and>
         nat (int c - x) < L (nat (int r - y)) \<and> V (nat (int r - y)) (nat (int c - x)) \<noteq> 0
      then W (nat (int r - y)) (nat (int c - x)) else res ! r ! c)"
proof (induction k)
  case 0
  then show ?case by (simp add: writeRows_def)
next
  case (Suc k)
  have d: "dims ROWS COLS (writeRows x y L V W k res)"
    using Suc.prems(1) by (rule writeRows_dims)
  have step: "writeRows x y L V W (Suc k) res =
      writeRow x y k (V k) (W k) (L k) (writeRows x y L V W k res)"
    by (simp add: writeRows_def)
  have eq: "int r = y + int k \<longleftrightarrow> 0 \<le> int r - y \<and> nat (int r - y) = k"
    by arith
  show ?case
    unfolding step writeRow_nth [OF d Suc.prems(2,3)] eq
    using Suc by (auto simp: less_Suc_eq)
qed

lemma lockCells_writeRows:
  "lockCells brd p =
     writeRows (px p) (py p) (\<lambda>i. length (pshape p ! i)) (\<lambda>i j. pshape p ! i ! j)
       (\<lambda>i j. ptype p) (length (pshape p)) brd"
  unfolding lockCells_def writeRows_def writeRow_def Let_def by (rule refl)

lemma lockCells0_writeRows:
  "lockCells0 brd p =
     writeRows (x0 p) (y0 p) (\<lambda>i. length (shape0 p ! i)) (\<lambda>i j. shape0 p ! i ! j)
       (\<lambda>i j. shape0 p ! i ! j) (length (shape0 p)) brd"
  unfolding lockCells0_def writeRows_def writeRow_def Let_def EMPTY_CELL_def
      BOARD_HEIGHT_def BOARD_WIDTH_def ROWS_def COLS_def by (rule refl)

lemma wf_board_dims: "wf_board b \<longleftrightarrow> dims ROWS COLS b"
  by (auto simp: wf_board_def dims_def list_all_length)

lemma lockCells_wf: "wf_board b \<Longrightarrow> wf_board (lockCells b p)"
  by (simp add: wf_board_dims lockCells_writeRows writeRows_dims)

lemma lockCells0_wf: "wf_board b \<Longrightarrow> wf_board (lockCells0 b p)"
  by (simp add: wf_board_dims lockCells0_writeRows writeRows_dims)

lemma lockCells_nth:
  "wf_board b \<Longrightarrow> r < ROWS \<Longrightarrow> c < COLS \<Longrightarrow>
   lockCells b p ! r ! c =
     (if shapeCell (pshape p) (int r - py p) (int c - px p) \<noteq> 0 then ptype p else b ! r ! c)"
  by (simp add: wf_board_dims lockCells_writeRows writeRows_nth shapeCell_def)

lemma lockCells0_nth:
  "wf_board b \<Longrightarrow> r < ROWS \<Longrightarrow> c < COLS \<Longrightarrow>
   lockCells0 b p ! r ! c =
     (if shapeCell (shape0 p) (int r - y0 p) (int c - x0 p) \<noteq> 0
      then shapeCell (shape0 p) (int r - y0 p) (int c - x0 p) else b ! r ! c)"
  by (simp add: wf_board_dims lockCells0_writeRows writeRows_nth shapeCell_def)

subsection \<open>Collision and the loop of the hard drop\<close>

lemma hasCell_iff:
  "hasCell shape \<longleftrightarrow> (\<exists>i<length shape. \<exists>j<length (shape ! i). shape ! i ! j \<noteq> 0)"
  by (simp add: hasCell_def list_ex_length)

lemma checkCollision_iff:
  "checkCollision brd p x y \<longleftrightarrow>
     (\<exists>i<length (pshape p). \<exists>j<length (pshape p ! i). pshape p ! i ! j \<noteq> 0 \<and>
        (x + int j < 0 \<or> x + int j \<ge> int COLS \<or> y + int i \<ge> int ROWS \<or>
         (y + int i \<ge> 0 \<and> brd ! nat (y + int i) ! nat (x + int j) \<noteq> 0)))"
  by (simp add: checkCollision_def Let_def list_ex_iff Bex_def)

lemma checkCollision0_iff:
  "checkCollision0 brd shape x y \<longleftrightarrow>
     (\<exists>i<length shape. \<exists>j<length (shape ! i). shape ! i ! j \<noteq> 0 \<and>
        (x + int j < 0 \<or> x + int j \<ge> int COLS \<or> y + int i \<ge> int ROWS \<or>
         (y + int i \<ge> 0 \<and> brd ! nat (y + int i) ! nat (x + int j) \<noteq> 0)))"
  unfolding checkCollision0_def Let_def EMPTY_CELL_def BOARD_WIDTH_def BOARD_HEIGHT_def
    ROWS_def COLS_def
  by (simp add: list_ex_iff Bex_def) blast

lemma checkCollision_agree:
  "checkCollision0 brd (pshape p) x y = checkCollision brd p x y"
  by (simp only: checkCollision_iff checkCollision0_iff)

lemma collision_below:
  assumes "i < length (pshape p)" "j < length (pshape p ! i)" "pshape p ! i ! j \<noteq> 0"
    and "y + int i \<ge> int ROWS"
  shows "checkCollision brd p x y"
  unfolding checkCollision_iff using assms by blast

lemma no_cell_no_collision: "\<not> hasCell (pshape p) \<Longrightarrow> \<not> checkCollision brd p x y"
  unfolding checkCollision_iff hasCell_iff by blast

lemma dropLoop_reaches:
  assumes cell: "i < length (pshape cp)" "j < length (pshape cp ! i)" "pshape cp ! i ! j \<noteq> 0"
  shows "nat (int ROWS - int i - y) \<le> n \<Longrightarrow>
         \<exists>y'. dropLoop brd cp y = Some y' \<and> y \<le> y' \<and>
              checkCollision brd cp (px cp) (y' + 1) \<and>
              (\<forall>k. y < k \<and> k \<le> y' \<longrightarrow> \<not> checkCollision brd cp (px cp) k)"
proof (induction n arbitrary: y)
  case 0
  then have "y + 1 + int i \<ge> int ROWS" by linarith
  then have c: "checkCollision brd cp (px cp) (y + 1)"
    using cell by (intro collision_below [of i cp j]) 
  then have "dropLoop brd cp y = Some y"
    by (subst dropLoop.simps) simp
  with c show ?case by auto
next
  case (Suc n)
  show ?case
  proof (cases "checkCollision brd cp (px cp) (y + 1)")
    case True
    then have "dropLoop brd cp y = Some y"
      by (subst dropLoop.simps) simp
    with True show ?thesis by auto
  next
    case False
    then have "\<not> y + 1 + int i \<ge> int ROWS"
      using cell collision_below [of i cp j "y + 1" brd "px cp"] by blast
    then have "nat (int ROWS - int i - (y + 1)) \<le> n"
      using Suc.prems by linarith
    from Suc.IH [OF this] obtain y' where
      y': "dropLoop brd cp (y + 1) = Some y'" "y + 1 \<le> y'"
          "checkCollision brd cp (px cp) (y' + 1)"
          "\<forall>k. y + 1 < k \<and> k \<le> y' \<longrightarrow> \<not> checkCollision brd cp (px cp) k"
      by blast
    have "dropLoop brd cp y = Some y'"
      using False y'(1) by (subst dropLoop.simps) simp
    moreover have "\<forall>k. y < k \<and> k \<le> y' \<longrightarrow> \<not> checkCollision brd cp (px cp) k"
    proof (intro allI impI)
      fix k assume "y < k \<and> k \<le> y'"
      then have "k = y + 1 \<or> (y + 1 < k \<and> k \<le> y')" by linarith
      then show "\<not> checkCollision brd cp (px cp) k"
        using False y'(4) by blast
    qed
    ultimately show ?thesis using y'(2,3) by auto
  qed
qed

lemma dropLoop_terminates:
  assumes "hasCell (pshape cp)"
  shows "\<exists>y'. dropLoop brd cp y = Some y' \<and> y \<le> y' \<and>
              checkCollision brd cp (px cp) (y' + 1) \<and>
              (\<forall>k. y < k \<and> k \<le> y' \<longrightarrow> \<not> checkCollision brd cp (px cp) k)"
proof -
  from assms obtain i j where
    "i < length (pshape cp)" "j < length (pshape cp ! i)" "pshape cp ! i ! j \<noteq> 0"
    unfolding hasCell_iff by blast
  then show ?thesis
    by (rule dropLoop_reaches [where n = "nat (int ROWS - int i - y)"]) simp
qed

lemma dropLoop_Some_collides:
  assumes "dropLoop brd cp y = Some y'"
  shows "checkCollision brd cp (px cp) (y' + 1)"
  by (rule dropLoop.raw_induct
        [where P = "\<lambda>b c n r. checkCollision b c (px c) (r + 1)", OF _ assms])
     (auto split: if_splits)

lemma dropLoop_diverges: "\<not> hasCell (pshape cp) \<Longrightarrow> dropLoop brd cp y = None"
  using dropLoop_Some_collides [of brd cp y] no_cell_no_collision [of cp brd]
  by (cases "dropLoop brd cp y") auto

subsection \<open>Clearing lines\<close>

lemma filter_by_index:
  "map (\<lambda>i. xs ! i) (filter (\<lambda>i. P (xs ! i)) [0..<length xs]) = filter P xs"
proof -
  have "filter P xs = filter P (map (\<lambda>i. xs ! i) [0..<length xs])"
    by (simp add: map_nth)
  also have "\<dots> = map (\<lambda>i. xs ! i) (filter (\<lambda>i. P (xs ! i)) [0..<length xs])"
    by (simp add: filter_map comp_def)
  finally show ?thesis by simp
qed

lemma length_fullRows:
  assumes "length nb = ROWS"
  shows "length (fullRows nb) = length (filter isFull nb)"
proof -
  have "length (filter isFull nb) =
        length (map (\<lambda>i. nb ! i) (filter (\<lambda>i. isFull (nb ! i)) [0..<length nb]))"
    by (simp only: filter_by_index)
  then show ?thesis
    using assms by (simp add: fullRows_def isFull_def)
qed

lemma remainingRows_fullRows:
  assumes "length nb = ROWS"
  shows "remainingRows nb (fullRows nb) = filter (\<lambda>row. \<not> isFull row) nb"
proof -
  have "filter (\<lambda>idx. idx \<notin> set (fullRows nb)) [0..<length nb] =
        filter (\<lambda>i. \<not> isFull (nb ! i)) [0..<length nb]"
    using assms by (intro filter_cong) (auto simp: fullRows_def isFull_def)
  then show ?thesis
    using filter_by_index [of nb "\<lambda>row. \<not> isFull row"]
    by (simp add: remainingRows_def)
qed

lemma clearLines_board:
  assumes "length nb = ROWS"
  shows "board (clearLines s nb (q\<lparr>board := nb\<rparr>)) = clearedBoard nb"
proof (cases "length (fullRows nb) = 0")
  case True
  then have "filter isFull nb = []"
    using length_fullRows [OF assms] by simp
  then have "filter (\<lambda>row. \<not> isFull row) nb = nb"
    by (simp add: filter_empty_conv filter_id_conv) 
  with True \<open>filter isFull nb = []\<close> show ?thesis
    by (simp add: clearLines_def clearedBoard_def)
next
  case False
  then have "fullRows nb \<noteq> []" by simp
  then show ?thesis
    using length_fullRows [OF assms] remainingRows_fullRows [OF assms]
    by (simp add: clearLines_def clearedBoard_def Let_def)
qed

lemma clearLines_score:
  "score (clearLines s nb q) = score q + int (length (fullRows nb)) * 10 * level s"
  by (simp add: clearLines_def Let_def)

lemma clearLines_lines:
  "linesCleared (clearLines s nb q) = linesCleared q + int (length (fullRows nb))"
  by (simp add: clearLines_def Let_def)

lemma clearLines_level:
  "level (clearLines s nb q) =
     (if length (fullRows nb) \<noteq> 0 \<and> (linesCleared s + int (length (fullRows nb))) mod 10 = 0
      then level q + 1 else level q)"
  by (simp add: clearLines_def Let_def)

lemma clearLines_dropInterval:
  "dropInterval (clearLines s nb q) =
     (if length (fullRows nb) \<noteq> 0 \<and> (linesCleared s + int (length (fullRows nb))) mod 10 = 0
      then max 200 (dropInterval q - 100) else dropInterval q)"
  by (simp add: clearLines_def Let_def)

lemma clearLines_none: "length (fullRows nb) = 0 \<Longrightarrow> clearLines s nb q = q"
  by (simp add: clearLines_def)

lemma not_full_empty_row: "\<not> isFull (replicate COLS 0)"
  by (simp add: isFull_def COLS_def list_all_iff)

lemma clearedBoard_length: "length (clearedBoard nb) = length nb"
  by (simp add: clearedBoard_def sum_length_filter_compl)

lemma clearedBoard_no_full: "row \<in> set (clearedBoard nb) \<Longrightarrow> \<not> isFull row"
  by (auto simp: clearedBoard_def not_full_empty_row)

lemma clearedBoard_wf:
  assumes "wf_board nb"
  shows "wf_board (clearedBoard nb)"
proof -
  have "length (clearedBoard nb) = ROWS"
    using assms by (simp add: clearedBoard_length wf_board_def)
  moreover have "list_all (\<lambda>row. length row = COLS) (clearedBoard nb)"
    using assms by (auto simp: wf_board_def clearedBoard_def list_all_iff)
  ultimately show ?thesis by (simp add: wf_board_def)
qed

lemma clearLines0_count:
  assumes "length nb = BOARD_HEIGHT"
  shows "clearLines0 nb = int (length (filter isFull nb)) * 100"
proof -
  have e: "(\<lambda>row. list_ex (\<lambda>cell. cell = EMPTY_CELL) row) = (\<lambda>row. \<not> isFull row)"
    by (auto simp: isFull_def EMPTY_CELL_def list_ex_iff list_all_iff)
  have "length (filter isFull nb) + length (filter (\<lambda>row. \<not> isFull row) nb) = BOARD_HEIGHT"
    using assms by (simp add: sum_length_filter_compl)
  then show ?thesis
    unfolding clearLines0_def Let_def e by simp
qed

lemma finalBoard0_clearedBoard:
  assumes "length nb = BOARD_HEIGHT"
  shows "finalBoard0 nb = clearedBoard nb"
proof -
  have e: "(\<lambda>row. list_ex (\<lambda>cell. cell = EMPTY_CELL) row) = (\<lambda>row. \<not> isFull row)"
    by (auto simp: isFull_def EMPTY_CELL_def list_ex_iff list_all_iff)
  have "length (filter isFull nb) + length (filter (\<lambda>row. \<not> isFull row) nb) = BOARD_HEIGHT"
    using assms by (simp add: sum_length_filter_compl)
  then have "nat (int BOARD_HEIGHT - int (length (filter (\<lambda>row. \<not> isFull row) nb))) =
             length (filter isFull nb)"
    by linarith
  then show ?thesis
    unfolding finalBoard0_def clearedBoard_def Let_def e
    by (simp add: EMPTY_CELL_def BOARD_WIDTH_def COLS_def)
qed

subsection \<open>The loop of the hard drop in \<^verbatim>\<open>part_000\<close>\<close>

lemma checkCollision_asPiece:
  "checkCollision brd (asPiece c) x y = checkCollision0 brd (shape0 c) x y"
  using checkCollision_agree [of brd "asPiece c" x y] by (simp add: asPiece_def)

lemma dropLoop0_to_dropLoop:
  assumes "dropLoop0 brd c y = Some r"
  shows "dropLoop brd (asPiece c) y = Some r"
proof (rule dropLoop0.raw_induct
        [where P = "\<lambda>b c n r. dropLoop b (asPiece c) n = Some r", OF _ assms])
  fix f b c n r
  assume ih: "\<And>b c n r. f b c n = Some r \<Longrightarrow> dropLoop b (asPiece c) n = Some r"
    and step: "(if \<not> checkCollision0 b (shape0 c) (x0 c) (n + 1) then f b c (n + 1) else Some n)
               = Some r"
  have x: "px (asPiece c) = x0 c" by (simp add: asPiece_def)
  show "dropLoop b (asPiece c) n = Some r"
  proof (cases "checkCollision0 b (shape0 c) (x0 c) (n + 1)")
    case True
    with step have "r = n" by simp
    with True show ?thesis
      by (subst dropLoop.simps) (simp add: checkCollision_asPiece x)
  next
    case False
    with step have "f b c (n + 1) = Some r" by simp
    then have "dropLoop b (asPiece c) (n + 1) = Some r" by (rule ih)
    with False show ?thesis
      by (subst dropLoop.simps) (simp add: checkCollision_asPiece x)
  qed
qed

lemma dropLoop_to_dropLoop0:
  assumes "dropLoop brd p y = Some r"
  shows "p = asPiece c \<Longrightarrow> dropLoop0 brd c y = Some r"
proof -
  have "\<forall>c. p = asPiece c \<longrightarrow> dropLoop0 brd c y = Some r"
  proof (rule dropLoop.raw_induct
        [where P = "\<lambda>b p n r. \<forall>c. p = asPiece c \<longrightarrow> dropLoop0 b c n = Some r", OF _ assms])
    fix f b p n r
    assume ih: "\<And>b p n r. f b p n = Some r \<Longrightarrow> \<forall>c. p = asPiece c \<longrightarrow> dropLoop0 b c n = Some r"
      and step: "(if \<not> checkCollision b p (px p) (n + 1) then f b p (n + 1) else Some n) = Some r"
    show "\<forall>c. p = asPiece c \<longrightarrow> dropLoop0 b c n = Some r"
    proof (intro allI impI)
      fix c assume p: "p = asPiece c"
      have x: "px (asPiece c) = x0 c" by (simp add: asPiece_def)
      show "dropLoop0 b c n = Some r"
      proof (cases "checkCollision0 b (shape0 c) (x0 c) (n + 1)")
        case True
        with step p have "r = n" by (simp add: checkCollision_asPiece x)
        with True show ?thesis by (subst dropLoop0.simps) simp
      next
        case False
        with step p have "f b p (n + 1) = Some r" by (simp add: checkCollision_asPiece x)
        then have "dropLoop0 b c (n + 1) = Some r" using ih p by blast
        with False show ?thesis by (subst dropLoop0.simps) simp
      qed
    qed
  qed
  then show "p = asPiece c \<Longrightarrow> dropLoop0 brd c y = Some r" by blast
qed

lemma dropLoop0_dropLoop: "dropLoop0 brd c y = dropLoop brd (asPiece c) y"
proof (cases "dropLoop0 brd c y")
  case None
  show ?thesis
  proof (cases "dropLoop brd (asPiece c) y")
    case None
    with \<open>dropLoop0 brd c y = None\<close> show ?thesis by simp
  next
    case (Some r)
    then have "dropLoop0 brd c y = Some r" by (rule dropLoop_to_dropLoop0) simp
    with None show ?thesis by simp
  qed
next
  case (Some r)
  then show ?thesis by (simp add: dropLoop0_to_dropLoop)
qed

subsection \<open>Tick, lock and spawn\<close>

lemma dropPiece_free:
  "currentPiece s = Some cp \<Longrightarrow> \<not> checkCollision (board s) cp (px cp) (py cp + 1) \<Longrightarrow>
   dropPiece rnd1 rnd2 s = s\<lparr>currentPiece := Some (cp\<lparr>py := py cp + 1\<rparr>)\<rparr>"
  by (simp add: dropPiece_def)

lemma dropPiece_blocked:
  "currentPiece s = Some cp \<Longrightarrow> checkCollision (board s) cp (px cp) (py cp + 1) \<Longrightarrow>
   dropPiece rnd1 rnd2 s = lockPiece rnd1 rnd2 s s"
  by (simp add: dropPiece_def)

lemma tick0_free:
  "currentPiece0 t = Some cp \<Longrightarrow> \<not> checkCollision0 (board0 t) (shape0 cp) (x0 cp) (y0 cp + 1) \<Longrightarrow>
   movePiece0 rnd1 rnd2 0 1 t = t\<lparr>currentPiece0 := Some (cp\<lparr>y0 := y0 cp + 1\<rparr>)\<rparr>"
  by (simp add: movePiece0_def)

lemma tick0_blocked:
  "currentPiece0 t = Some cp \<Longrightarrow> checkCollision0 (board0 t) (shape0 cp) (x0 cp) (y0 cp + 1) \<Longrightarrow>
   movePiece0 rnd1 rnd2 0 1 t = lockPiece0 rnd1 rnd2 t t"
  by (simp add: movePiece0_def)

lemma lockPiece_spawn:
  "currentPiece s = Some cp \<Longrightarrow>
   currentPiece (lockPiece rnd1 rnd2 s q) =
     Some \<lparr>pshape = SHAPES ! rnd1, ptype = int rnd1 + 1, px = 3, py = 0\<rparr> \<and>
   nextPiece (lockPiece rnd1 rnd2 s q) =
     Some \<lparr>nshape = SHAPES ! rnd2, ntype = int rnd2 + 1\<rparr>"
  by (simp add: lockPiece_def spawnPiece_def Let_def COLS_def)

lemma lockPiece0_spawn:
  "currentPiece0 t = Some cp \<Longrightarrow>
   currentPiece0 (lockPiece0 rnd1 rnd2 t q) =
     Some \<lparr>shape0 = SHAPES0 ! rnd1,
           x0 = (int BOARD_WIDTH - int (length (SHAPES0 ! rnd1 ! 0))) div 2,
           y0 = - int (length (SHAPES0 ! rnd1))\<rparr> \<and>
   nextPiece0 (lockPiece0 rnd1 rnd2 t q) = Some (SHAPES0 ! rnd2)"
  by (simp add: lockPiece0_def spawnPiece0_def Let_def)

lemma spawnPiece_frame:
  "board (spawnPiece rnd1 rnd2 q) = board q" "score (spawnPiece rnd1 rnd2 q) = score q"
  "linesCleared (spawnPiece rnd1 rnd2 q) = linesCleared q"
  "level (spawnPiece rnd1 rnd2 q) = level q"
  "dropInterval (spawnPiece rnd1 rnd2 q) = dropInterval q"
  by (simp_all add: spawnPiece_def Let_def)

lemma lockPiece_board:
  assumes "wf_board (board s)" "currentPiece s = Some cp"
  shows "board (lockPiece rnd1 rnd2 s q) = clearedBoard (lockCells (board s) cp)"
proof -
  have "length (lockCells (board s) cp) = ROWS"
    using lockCells_wf [OF assms(1), of cp] by (simp add: wf_board_def)
  then show ?thesis
    using assms(2) by (simp add: lockPiece_def Let_def spawnPiece_frame clearLines_board)
qed

lemma lockPiece0_board:
  "currentPiece0 t = Some cp \<Longrightarrow>
   board0 (lockPiece0 rnd1 rnd2 t q) = lockCells0 (board0 t) cp"
  by (simp add: lockPiece0_def spawnPiece0_def Let_def)

lemma lockPiece_score:
  assumes "wf_board (board s)" "currentPiece s = Some cp"
  shows "score (lockPiece rnd1 rnd2 s q) =
         score q + 10 * int (length (filter isFull (lockCells (board s) cp))) * level s"
proof -
  have "length (lockCells (board s) cp) = ROWS"
    using lockCells_wf [OF assms(1), of cp] by (simp add: wf_board_def)
  then show ?thesis
    using assms(2)
    by (simp add: lockPiece_def Let_def spawnPiece_frame clearLines_score length_fullRows)
qed

lemma lockPiece0_score:
  assumes "wf_board (board0 t)" "currentPiece0 t = Some cp"
  shows "score0 (lockPiece0 rnd1 rnd2 t q) =
         score0 q + 100 * int (length (filter isFull (lockCells0 (board0 t) cp)))"
proof -
  have "length (lockCells0 (board0 t) cp) = BOARD_HEIGHT"
    using lockCells0_wf [OF assms(1), of cp] by (simp add: wf_board_def BOARD_HEIGHT_def ROWS_def)
  then show ?thesis
    using assms(2)
    by (simp add: lockPiece0_def Let_def spawnPiece0_def clearLines0_count)
qed

lemma clearLines_progress:
  assumes "int (length (fullRows nb)) = k"
  shows "level (clearLines s nb q) =
           (if k \<noteq> 0 \<and> (linesCleared s + k) mod 10 = 0 then level q + 1 else level q)"
    and "dropInterval (clearLines s nb q) =
           (if k \<noteq> 0 \<and> (linesCleared s + k) mod 10 = 0
            then max 200 (dropInterval q - 100) else dropInterval q)"
  using assms by (auto simp: clearLines_def Let_def)

lemma lockPiece_progress:
  assumes "wf_board (board s)" "currentPiece s = Some cp"
    and k: "k = int (length (filter isFull (lockCells (board s) cp)))"
  shows "linesCleared (lockPiece rnd1 rnd2 s q) = linesCleared q + k"
    and "level (lockPiece rnd1 rnd2 s q) =
           (if k \<noteq> 0 \<and> (linesCleared s + k) mod 10 = 0 then level q + 1 else level q)"
    and "dropInterval (lockPiece rnd1 rnd2 s q) =
           (if k \<noteq> 0 \<and> (linesCleared s + k) mod 10 = 0
            then max 200 (dropInterval q - 100) else dropInterval q)"
proof -
  have "length (lockCells (board s) cp) = ROWS"
    using lockCells_wf [OF assms(1), of cp] by (simp add: wf_board_def)
  then have e: "int (length (fullRows (lockCells (board s) cp))) = k"
    by (simp add: length_fullRows k)
  show "linesCleared (lockPiece rnd1 rnd2 s q) = linesCleared q + k"
    using assms(2) e by (simp add: lockPiece_def Let_def spawnPiece_frame clearLines_lines)
  show "level (lockPiece rnd1 rnd2 s q) =
           (if k \<noteq> 0 \<and> (linesCleared s + k) mod 10 = 0 then level q + 1 else level q)"
    using assms(2)
    by (simp add: lockPiece_def Let_def spawnPiece_frame clearLines_progress [OF e])
  show "dropInterval (lockPiece rnd1 rnd2 s q) =
           (if k \<noteq> 0 \<and> (linesCleared s + k) mod 10 = 0
            then max 200 (dropInterval q - 100) else dropInterval q)"
    using assms(2)
    by (simp add: lockPiece_def Let_def spawnPiece_frame clearLines_progress [OF e])
qed

subsection \<open>Spawn position and hard drop\<close>

lemma spawn0_clear:
  assumes "rnd1 < 7"
  shows "\<not> checkCollision0 brd (SHAPES0 ! rnd1)
            ((int BOARD_WIDTH - int (length (SHAPES0 ! rnd1 ! 0))) div 2)
            (- int (length (SHAPES0 ! rnd1)))"
proof -
  from assms consider "rnd1 = 0" | "rnd1 = 1" | "rnd1 = 2" | "rnd1 = 3" | "rnd1 = 4"
    | "rnd1 = 5" | "rnd1 = 6" by linarith
  then show ?thesis
    by cases
      (simp_all add: checkCollision0_def SHAPES0_def BOARD_WIDTH_def BOARD_HEIGHT_def
        EMPTY_CELL_def upt_rec)
qed

lemma lockPiece_pending:
  "currentPiece s = Some cp \<Longrightarrow>
   lockPiece rnd1 rnd2 s (s\<lparr>currentPiece := c\<rparr>) = lockPiece rnd1 rnd2 s s"
  by (cases s) (simp add: lockPiece_def clearLines_def spawnPiece_def Let_def)

lemma hardDrop_locks_snapshot:
  "currentPiece s = Some cp \<Longrightarrow> dropLoop (board s) cp (py cp) = Some y' \<Longrightarrow>
   hardDrop rnd1 rnd2 s = Some (lockPiece rnd1 rnd2 s s)"
  by (simp add: hardDrop_def lockPiece_pending)

lemma hardDrop_returns:
  "currentPiece s = Some cp \<Longrightarrow> hasCell (pshape cp) \<Longrightarrow>
   hardDrop rnd1 rnd2 s = Some (lockPiece rnd1 rnd2 s s)"
  using dropLoop_terminates [of cp "board s" "py cp"] hardDrop_locks_snapshot by blast

lemma lockPiece0_pending:
  "currentPiece0 t = Some cp \<Longrightarrow>
   lockPiece0 rnd1 rnd2 t (t\<lparr>currentPiece0 := c\<rparr>) = lockPiece0 rnd1 rnd2 t t"
  by (cases t) (simp add: lockPiece0_def spawnPiece0_def Let_def)

lemma hardDrop0_returns:
  assumes "currentPiece0 t = Some cp" "hasCell (shape0 cp)"
  shows "hardDrop0 rnd1 rnd2 t = Some (lockPiece0 rnd1 rnd2 t t)"
proof -
  have "hasCell (pshape (asPiece cp))" using assms(2) by (simp add: asPiece_def)
  from dropLoop_terminates [OF this, of "board0 t" "y0 cp"]
  obtain y' where "dropLoop0 (board0 t) cp (y0 cp) = Some y'"
    by (auto simp: dropLoop0_dropLoop)
  with assms(1) show ?thesis
    by (simp add: hardDrop0_def lockPiece0_pending)
qed

subsection \<open>The board keeps its size\<close>

lemma wf_board_zeros: "wf_board (zeros ROWS COLS)"
  by (simp add: wf_board_def zeros_def list_all_iff)

lemma startGame_wf: "wf_board (board (startGame rnd1 rnd2 s))"
  by (simp add: startGame_def Let_def spawnPiece_frame wf_board_zeros)

lemma startGame0_wf: "wf_board (board0 (startGame0 rnd1 rnd2 t))"
  using wf_board_zeros
  by (simp add: startGame0_def Let_def spawnPiece0_def BOARD_HEIGHT_def BOARD_WIDTH_def
      ROWS_def COLS_def)

lemma lockPiece_wf:
  assumes "wf_board (board s)" "wf_board (board q)"
  shows "wf_board (board (lockPiece rnd1 rnd2 s q))"
proof (cases "currentPiece s")
  case None
  with assms(2) show ?thesis by (simp add: lockPiece_def)
next
  case (Some cp)
  with assms(1) show ?thesis
    by (simp add: lockPiece_board clearedBoard_wf lockCells_wf)
qed

lemma dropPiece_wf: "wf_board (board s) \<Longrightarrow> wf_board (board (dropPiece rnd1 rnd2 s))"
  by (auto simp: dropPiece_def Let_def lockPiece_wf split: option.splits)

lemma hardDrop_wf:
  "wf_board (board s) \<Longrightarrow> hardDrop rnd1 rnd2 s = Some s' \<Longrightarrow> wf_board (board s')"
  by (auto simp: hardDrop_def lockPiece_wf split: option.splits)

lemma tick0_wf:
  "wf_board (board0 t) \<Longrightarrow> wf_board (board0 (movePiece0 rnd1 rnd2 dx dy t))"
  by (auto simp: movePiece0_def Let_def lockPiece0_board lockCells0_wf split: option.splits)

subsection \<open>Rows completed by a lock\<close>

lemma completedRows_fresh:
  assumes "list_all (\<lambda>row. \<not> isFull row) b" "length b = length b'"
  shows "completedRows b b' = length (filter isFull b')"
proof -
  have "filter (\<lambda>i. \<not> isFull (b ! i) \<and> isFull (b' ! i)) [0..<length b'] =
        filter (\<lambda>i. isFull (b' ! i)) [0..<length b']"
    using assms by (intro filter_cong) (auto simp: list_all_length)
  moreover have "length (filter isFull b') =
        length (map (\<lambda>i. b' ! i) (filter (\<lambda>i. isFull (b' ! i)) [0..<length b']))"
    by (simp only: filter_by_index)
  ultimately show ?thesis by (simp add: completedRows_def)
qed

lemma lockPiece0_score_fresh:
  assumes "wf_board (board0 t)" "list_all (\<lambda>row. \<not> isFull row) (board0 t)"
    "currentPiece0 t = Some cp"
  shows "score0 (lockPiece0 rnd1 rnd2 t q) =
         score0 q + 100 * int (completedRows (board0 t) (lockCells0 (board0 t) cp))"
proof -
  have "length (board0 t) = length (lockCells0 (board0 t) cp)"
    using assms(1) lockCells0_wf [OF assms(1), of cp] by (simp add: wf_board_def)
  then show ?thesis
    using assms by (simp add: lockPiece0_score completedRows_fresh)
qed

lemma lockPiece_score_fresh:
  assumes "wf_board (board s)" "list_all (\<lambda>row. \<not> isFull row) (board s)"
    "currentPiece s = Some cp"
  shows "score (lockPiece rnd1 rnd2 s q) =
         score q + 10 * int (completedRows (board s) (lockCells (board s) cp)) * level s"
proof -
  have "length (board s) = length (lockCells (board s) cp)"
    using assms(1) lockCells_wf [OF assms(1), of cp] by (simp add: wf_board_def)
  then show ?thesis
    using assms by (simp add: lockPiece_score completedRows_fresh)
qed

lemma lockPiece_no_full:
  assumes "wf_board (board s)" "currentPiece s = Some cp"
  shows "list_all (\<lambda>row. \<not> isFull row) (board (lockPiece rnd1 rnd2 s q))"
  using assms by (simp add: lockPiece_board list_all_iff clearedBoard_no_full)

lemma startGame_no_full:
  "list_all (\<lambda>row. \<not> isFull row) (board (startGame rnd1 rnd2 s))"
  by (simp add: startGame_def Let_def spawnPiece_frame zeros_def list_all_iff
      not_full_empty_row)

lemma relock_awards_again0:
  "score0 (movePiece0 2 4 0 1 stackState0) = 200 \<and>
   completedRows (board0 (movePiece0 2 4 0 1 stackState0))
     (lockCells0 (board0 (movePiece0 2 4 0 1 stackState0))
        \<lparr>shape0 = SHAPES0 ! 2, x0 = 3, y0 = - 3\<rparr>) = 0 \<and>
   map_option score0 (hardDrop0 2 4 (movePiece0 2 4 0 1 stackState0)) = Some 400"
  by code_simp

section \<open>The claims\<close>

text \<open>
  Claim C1 (tick: when the destination collides, the piece is locked and the new current piece
  is the previously queued next piece; when it is free, the piece only moves down one row).
  The free case is \<open>dropPiece_free\<close> and \<open>tick0_free\<close>. In the blocked case both files call
  \<^verbatim>\<open>spawnPiece\<close>, which draws the new current piece at random and never reads
  \<^verbatim>\<open>nextPiece\<close> (\<open>lockPiece_spawn\<close>, \<open>lockPiece0_spawn\<close>). Evaluated on \<open>stackState\<close> and
  \<open>stackState0\<close>, whose queued piece is the I piece, with random draws 2 and 4: the tick is
  blocked, and the new current piece is the T piece, not the I piece shown as next.
\<close>

theorem spawn_ignores_next:
  "checkCollision (board stackState) \<lparr>pshape = SHAPES ! 1, ptype = 2, px = 7, py = 17\<rparr> 7 18 \<and>
   nextPiece stackState = Some \<lparr>nshape = SHAPES ! 0, ntype = 1\<rparr> \<and>
   currentPiece (dropPiece 2 4 stackState) =
     Some \<lparr>pshape = SHAPES ! 2, ptype = 3, px = 3, py = 0\<rparr> \<and>
   SHAPES ! 2 \<noteq> SHAPES ! 0 \<and>
   checkCollision0 (board0 stackState0) (SHAPES0 ! 1) 8 19 \<and>
   nextPiece0 stackState0 = Some (SHAPES0 ! 0) \<and>
   currentPiece0 (movePiece0 2 4 0 1 stackState0) =
     Some \<lparr>shape0 = SHAPES0 ! 2, x0 = 3, y0 = - 3\<rparr> \<and>
   SHAPES0 ! 2 \<noteq> SHAPES0 ! 0"
  by code_simp

text \<open>
  The score of \<^verbatim>\<open>part_000\<close> is flat. \<open>stackState0\<close> holds no full row; the tick locks the O
  piece and completes \<open>k = 2\<close> rows; the score rises by 200, which is not \<open>10 * k * L\<close> at
  level \<open>L = 1\<close>, the level of a session that has cleared no line yet.
\<close>

theorem lock_score_flat_counterexample:
  "list_all (\<lambda>row. \<not> isFull row) (board0 stackState0) \<and>
   completedRows (board0 stackState0) (lockCells0 (board0 stackState0)
      \<lparr>shape0 = SHAPES0 ! 1, x0 = 8, y0 = 18\<rparr>) = 2 \<and>
   score0 (movePiece0 2 4 0 1 stackState0) - score0 stackState0 = 200 \<and>
   score0 (movePiece0 2 4 0 1 stackState0) - score0 stackState0 \<noteq> 10 * 2 * 1"
  by code_simp

text \<open>
  Claim C2, as amended (score awarded by a lock). In \<^verbatim>\<open>page.tsx\<close> the score grows by exactly
  \<open>10 * k * L\<close>, where \<open>L\<close> is the level before the lock and \<open>k\<close> the number of rows the lock
  clears: the full rows of the board with the piece locked in, which on a board without a full
  row (every board \<^verbatim>\<open>page.tsx\<close> stores, by \<open>startGame_no_full\<close> and \<open>lockPiece_no_full\<close>)
  are the rows the lock completes. \<^verbatim>\<open>part_000\<close> keeps no level: on a board without a full row
  its score grows by the flat amount \<open>100 * k\<close> for the \<open>k\<close> rows the lock completes. Nothing is
  stated about \<^verbatim>\<open>part_000\<close> on a board that already holds a full row; such rows stay on its
  board and are counted again (\<open>relock_awards_again0\<close>), since \<^verbatim>\<open>lockPiece\<close> stores the
  board as locked (\<open>lockPiece0_board\<close>).
\<close>

theorem lock_score:
  "(wf_board (board s) \<and> currentPiece s = Some cp \<longrightarrow>
      score (lockPiece rnd1 rnd2 s q) =
        score q + 10 * int (length (filter isFull (lockCells (board s) cp))) * level s) \<and>
   (wf_board (board s) \<and> list_all (\<lambda>row. \<not> isFull row) (board s) \<and>
    currentPiece s = Some cp \<longrightarrow>
      score (lockPiece rnd1 rnd2 s q) =
        score q + 10 * int (completedRows (board s) (lockCells (board s) cp)) * level s) \<and>
   (wf_board (board0 t) \<and> list_all (\<lambda>row. \<not> isFull row) (board0 t) \<and>
    currentPiece0 t = Some cp0 \<longrightarrow>
      score0 (lockPiece0 rnd1 rnd2 t q0) =
        score0 q0 + 100 * int (completedRows (board0 t) (lockCells0 (board0 t) cp0)))"
  using lockPiece_score [of s cp rnd1 rnd2 q] lockPiece_score_fresh [of s cp rnd1 rnd2 q]
    lockPiece0_score_fresh [of t cp0 rnd1 rnd2 q0]
  by blast

text \<open>
  \<open>stackState\<close> and \<open>stackState0\<close> hold no full row and their lock completes two rows: at level 5
  \<^verbatim>\<open>page.tsx\<close> awards \<open>10 * 2 * 5 = 100\<close> points, \<^verbatim>\<open>part_000\<close> awards \<open>100 * 2 = 200\<close>.
\<close>

theorem lock_score_witness:
  "wf_board (board stackState) \<and> list_all (\<lambda>row. \<not> isFull row) (board stackState) \<and>
   currentPiece stackState = Some \<lparr>pshape = SHAPES ! 1, ptype = 2, px = 7, py = 17\<rparr> \<and>
   completedRows (board stackState) (lockCells (board stackState)
      \<lparr>pshape = SHAPES ! 1, ptype = 2, px = 7, py = 17\<rparr>) = 2 \<and>
   score (lockPiece 2 4 (stackState\<lparr>level := 5\<rparr>) (stackState\<lparr>level := 5\<rparr>)) = 100 \<and>
   wf_board (board0 stackState0) \<and> list_all (\<lambda>row. \<not> isFull row) (board0 stackState0) \<and>
   currentPiece0 stackState0 = Some \<lparr>shape0 = SHAPES0 ! 1, x0 = 8, y0 = 18\<rparr> \<and>
   completedRows (board0 stackState0) (lockCells0 (board0 stackState0)
      \<lparr>shape0 = SHAPES0 ! 1, x0 = 8, y0 = 18\<rparr>) = 2 \<and>
   score0 (lockPiece0 2 4 stackState0 stackState0) = 200"
proof -
  let ?cp = "\<lparr>pshape = SHAPES ! 1, ptype = 2, px = 7, py = 17\<rparr>"
  let ?s = "stackState\<lparr>level := 5\<rparr>"
  let ?cq = "\<lparr>shape0 = SHAPES0 ! 1, x0 = 8, y0 = 18\<rparr>"
  have h: "wf_board (board ?s)" "list_all (\<lambda>row. \<not> isFull row) (board ?s)"
    "currentPiece ?s = Some ?cp"
    "wf_board (board0 stackState0)" "list_all (\<lambda>row. \<not> isFull row) (board0 stackState0)"
    "currentPiece0 stackState0 = Some ?cq"
    by code_simp+
  have b: "board ?s = board stackState" "currentPiece stackState = Some ?cp" by code_simp+
  have k: "completedRows (board ?s) (lockCells (board ?s) ?cp) = 2"
    "completedRows (board0 stackState0) (lockCells0 (board0 stackState0) ?cq) = 2"
    by code_simp+
  have v: "score ?s = 0" "level ?s = 5" "score0 stackState0 = 0" by code_simp+
  from lock_score [of ?s ?cp 2 4 ?s stackState0 ?cq stackState0] h
  have "score (lockPiece 2 4 ?s ?s) =
          score ?s + 10 * int (completedRows (board ?s) (lockCells (board ?s) ?cp)) * level ?s"
    and "score0 (lockPiece0 2 4 stackState0 stackState0) =
          score0 stackState0 +
          100 * int (completedRows (board0 stackState0) (lockCells0 (board0 stackState0) ?cq))"
    by blast+
  then have "score (lockPiece 2 4 ?s ?s) = 100"
    "score0 (lockPiece0 2 4 stackState0 stackState0) = 200"
    unfolding k v by simp_all
  with h b k show ?thesis by simp
qed

text \<open>
  Claim C3 (after a lock the stored board is the locked board with every full row removed and
  as many empty rows prepended). \<^verbatim>\<open>page.tsx\<close> does so: \<open>lockPiece_board\<close>, with
  \<open>clearedBoard_length\<close>, \<open>clearedBoard_no_full\<close> and \<open>clearedBoard_wf\<close>. \<^verbatim>\<open>part_000\<close> computes
  the same board in the local \<^verbatim>\<open>finalBoard\<close> (\<open>finalBoard0_clearedBoard\<close>) and then stores
  \<^verbatim>\<open>newBoard\<close>, the board as locked (\<open>lockPiece0_board\<close>). Evaluated on \<open>stackState0\<close>: after
  the tick the rows 18 and 19 of the stored board are full, while \<^verbatim>\<open>finalBoard\<close>, and the board
  \<^verbatim>\<open>page.tsx\<close> stores for the same position, are empty.
\<close>

theorem lock_keeps_full_rows0:
  "board0 (movePiece0 2 4 0 1 stackState0) =
     replicate 18 (replicate 10 0) @ [[1,1,1,1,1,1,1,1,2,2], [1,1,1,1,1,1,1,1,2,2]] \<and>
   isFull (board0 (movePiece0 2 4 0 1 stackState0) ! 18) \<and>
   isFull (board0 (movePiece0 2 4 0 1 stackState0) ! 19) \<and>
   finalBoard0 (lockCells0 (board0 stackState0) \<lparr>shape0 = SHAPES0 ! 1, x0 = 8, y0 = 18\<rparr>) =
     replicate 20 (replicate 10 0) \<and>
   board (dropPiece 2 4 stackState) = replicate 20 (replicate 10 0)"
  by code_simp

text \<open>
  Claim C4 (the level rises by one exactly when the total of cleared lines crosses a multiple
  of 10, the drop interval then shrinks by a fixed step down to a fixed minimum; a clear of
  zero rows changes nothing). \<^verbatim>\<open>clearLines\<close> tests \<^verbatim>\<open>(linesCleared + cleared) % 10 === 0\<close>:
  by \<open>lockPiece_progress\<close> the level rises, and the interval becomes
  \<open>max 200 (interval - 100)\<close>, exactly when the new total is itself a multiple of 10, and by
  \<open>clearLines_none\<close> a clear of zero rows changes nothing. A total that jumps over a multiple
  is missed. Evaluated on \<open>stackState\<close>: the total goes from 9 to 11, across 10, and the level
  stays 1 and the interval 1000.
\<close>

theorem level_skips_boundary:
  "linesCleared stackState = 9 \<and> level stackState = 1 \<and> dropInterval stackState = 1000 \<and>
   linesCleared (dropPiece 2 4 stackState) = 11 \<and>
   level (dropPiece 2 4 stackState) = 1 \<and>
   dropInterval (dropPiece 2 4 stackState) = 1000"
  by code_simp

text \<open>
  Claim C5 (game over). When the game-over condition holds, the effect moves the session to
  the results stage and stores the score as the new high score exactly when it is strictly
  greater than the stored one; everything else keeps its value. In \<^verbatim>\<open>page.tsx\<close> the condition
  is an occupied cell in row 0 while the stage is \<^verbatim>\<open>game\<close>; otherwise the effect changes
  nothing, so the high score changes only on that transition. In \<^verbatim>\<open>part_000\<close> the condition
  is that the current piece collides where it stands; the effect runs whenever the current
  piece changes, and a piece just spawned stands above the board and is free (\<open>spawn0_clear\<close>).
\<close>

theorem gameOver_transition:
  "(stage s = Game \<and> list_ex (\<lambda>cell. cell \<noteq> 0) (board s ! 0) \<longrightarrow>
      gameOverEffect s =
        s\<lparr>stage := Results,
          highScore := (if score s > highScore s then score s else highScore s)\<rparr>) \<and>
   (\<not> (stage s = Game \<and> list_ex (\<lambda>cell. cell \<noteq> 0) (board s ! 0)) \<longrightarrow> gameOverEffect s = s) \<and>
   (highScore (gameOverEffect s) \<noteq> highScore s \<longleftrightarrow>
      stage s = Game \<and> list_ex (\<lambda>cell. cell \<noteq> 0) (board s ! 0) \<and> score s > highScore s) \<and>
   (currentPiece0 t = Some cp \<and> checkCollision0 (board0 t) (shape0 cp) (x0 cp) (y0 cp) \<longrightarrow>
      gameOverEffect0 t =
        t\<lparr>stage0 := Results,
          highScore0 := (if score0 t > highScore0 t then score0 t else highScore0 t)\<rparr>) \<and>
   (currentPiece0 t = Some cp \<and> \<not> checkCollision0 (board0 t) (shape0 cp) (x0 cp) (y0 cp) \<longrightarrow>
      gameOverEffect0 t = t) \<and>
   (currentPiece0 t = None \<longrightarrow> gameOverEffect0 t = t)"
  by (cases s, cases t) (auto simp: gameOverEffect_def gameOverEffect0_def Let_def)

text \<open>
  \<open>topState\<close> has the score 120 against a high score of 100 and an occupied row 0;
  \<open>topState0\<close> has the score 300 and a piece that overlaps row 0.
\<close>

theorem gameOver_transition_witness:
  "stage topState = Game \<and> list_ex (\<lambda>cell. cell \<noteq> 0) (board topState ! 0) \<and>
   stage (gameOverEffect topState) = Results \<and> highScore (gameOverEffect topState) = 120 \<and>
   currentPiece0 topState0 = Some demoPiece0 \<and>
   checkCollision0 (board0 topState0) (shape0 demoPiece0) (x0 demoPiece0) (y0 demoPiece0) \<and>
   stage0 (gameOverEffect0 topState0) = Results \<and> highScore0 (gameOverEffect0 topState0) = 300"
proof -
  have h: "stage topState = Game \<and> list_ex (\<lambda>cell. cell \<noteq> 0) (board topState ! 0)"
    "currentPiece0 topState0 = Some demoPiece0 \<and>
     checkCollision0 (board0 topState0) (shape0 demoPiece0) (x0 demoPiece0) (y0 demoPiece0)"
    by code_simp+
  have v: "score topState = 120" "highScore topState = 100"
    "score0 topState0 = 300" "highScore0 topState0 = 100" by code_simp+
  from gameOver_transition [of topState topState0 demoPiece0] h
  have "gameOverEffect topState =
        topState\<lparr>stage := Results,
          highScore := (if score topState > highScore topState then score topState
                        else highScore topState)\<rparr>"
    and "gameOverEffect0 topState0 =
        topState0\<lparr>stage0 := Results,
          highScore0 := (if score0 topState0 > highScore0 topState0 then score0 topState0
                         else highScore0 topState0)\<rparr>"
    by blast+
  then have "stage (gameOverEffect topState) = Results" "highScore (gameOverEffect topState) = 120"
    "stage0 (gameOverEffect0 topState0) = Results" "highScore0 (gameOverEffect0 topState0) = 300"
    unfolding v by simp_all
  with h show ?thesis by simp
qed

text \<open>
  Claim C6 (rotation). For a square matrix of size \<open>N\<close>, \<^verbatim>\<open>rotateMatrix\<close> returns a square
  matrix of the same size in which the element of \<open>(r, c)\<close> stands at \<open>(c, N - 1 - r)\<close>, and four
  rotations give the matrix back.
\<close>

theorem rotateMatrix_clockwise:
  assumes "square M"
  shows "length (rotateMatrix M) = length M \<and> square (rotateMatrix M) \<and>
         (\<forall>r<length M. \<forall>c<length M. rotateMatrix M ! c ! (length M - 1 - r) = M ! r ! c) \<and>
         rotateMatrix (rotateMatrix (rotateMatrix (rotateMatrix M))) = M"
proof (intro conjI allI impI)
  show "length (rotateMatrix M) = length M" by (rule length_rotateMatrix)
  show "square (rotateMatrix M)" by (rule square_rotateMatrix)
  show "rotateMatrix (rotateMatrix (rotateMatrix (rotateMatrix M))) = M"
    using assms by (rule rotate4)
next
  fix r c assume r: "r < length M" and c: "c < length M"
  then have "length M - 1 - r < length M" "length M - 1 - (length M - 1 - r) = r" by arith+
  with c show "rotateMatrix M ! c ! (length M - 1 - r) = M ! r ! c"
    by (simp add: rotateMatrix_nth)
qed

text \<open>
  The T piece of \<^verbatim>\<open>page.tsx\<close> and its rotation.
\<close>

theorem rotateMatrix_clockwise_witness:
  "square (SHAPES ! 2) \<and>
   rotateMatrix (SHAPES ! 2) = [[0,0,3,0],[0,3,3,0],[0,0,3,0],[0,0,0,0]] \<and>
   length (rotateMatrix (SHAPES ! 2)) = length (SHAPES ! 2) \<and> square (rotateMatrix (SHAPES ! 2)) \<and>
   rotateMatrix (SHAPES ! 2) ! 2 ! (length (SHAPES ! 2) - 1 - 1) = SHAPES ! 2 ! 1 ! 2 \<and>
   rotateMatrix (rotateMatrix (rotateMatrix (rotateMatrix (SHAPES ! 2)))) = SHAPES ! 2"
proof -
  have h: "square (SHAPES ! 2)" by code_simp
  have v: "rotateMatrix (SHAPES ! 2) = [[0,0,3,0],[0,3,3,0],[0,0,3,0],[0,0,0,0]]" by code_simp
  have i: "1 < length (SHAPES ! 2)" "2 < length (SHAPES ! 2)" by code_simp+
  show ?thesis using h v i rotateMatrix_clockwise [OF h] by blast
qed

text \<open>
  Claim C7 (horizontal move). \<^verbatim>\<open>movePiece(dx, 0)\<close> either changes the x-coordinate of the
  current piece by \<open>dx\<close> and nothing else, or leaves the state as it is; the board is the same
  in both cases, so a blocked move never locks. This holds for every \<open>dx\<close>, in particular for
  \<open>- 1\<close> and \<open>1\<close>, in both files.
\<close>

theorem movePiece_frame:
  "(movePiece dx 0 s = s \<or>
     (\<exists>cp. currentPiece s = Some cp \<and>
           movePiece dx 0 s = s\<lparr>currentPiece := Some (cp\<lparr>px := px cp + dx\<rparr>)\<rparr>)) \<and>
   board (movePiece dx 0 s) = board s \<and>
   (movePiece0 rnd1 rnd2 dx 0 t = t \<or>
     (\<exists>cp. currentPiece0 t = Some cp \<and>
           movePiece0 rnd1 rnd2 dx 0 t = t\<lparr>currentPiece0 := Some (cp\<lparr>x0 := x0 cp + dx\<rparr>)\<rparr>)) \<and>
   board0 (movePiece0 rnd1 rnd2 dx 0 t) = board0 t"
  by (auto simp: movePiece_def movePiece0_def Let_def split: option.splits)

text \<open>
  A free move to the right and to the left, and a move blocked by the right wall.
\<close>

theorem movePiece_frame_witness:
  "movePiece 1 0 openState = openState\<lparr>currentPiece := Some (demoPiece\<lparr>px := 4\<rparr>)\<rparr> \<and>
   movePiece 1 0 wallState = wallState \<and>
   movePiece0 0 0 (- 1) 0 openState0 = openState0\<lparr>currentPiece0 := Some (demoPiece0\<lparr>x0 := 2\<rparr>)\<rparr> \<and>
   movePiece0 0 0 1 0 wallState0 = wallState0 \<and>
   (movePiece 1 0 wallState = wallState \<or>
     (\<exists>cp. currentPiece wallState = Some cp \<and>
           movePiece 1 0 wallState = wallState\<lparr>currentPiece := Some (cp\<lparr>px := px cp + 1\<rparr>)\<rparr>)) \<and>
   board (movePiece 1 0 wallState) = board wallState"
proof -
  have v: "movePiece 1 0 openState = openState\<lparr>currentPiece := Some (demoPiece\<lparr>px := 4\<rparr>)\<rparr>"
    "movePiece 1 0 wallState = wallState"
    "movePiece0 0 0 (- 1) 0 openState0 = openState0\<lparr>currentPiece0 := Some (demoPiece0\<lparr>x0 := 2\<rparr>)\<rparr>"
    "movePiece0 0 0 1 0 wallState0 = wallState0"
    by code_simp+
  show ?thesis
    using v movePiece_frame [of 1 wallState 0 0 wallState0] by blast
qed

text \<open>
  Claim C8 (rotate). \<^verbatim>\<open>rotatePiece\<close> replaces the shape of the current piece by its clockwise
  rotation exactly when the rotated shape is collision-free at the same anchor; otherwise, and
  without a current piece, the state is unchanged. The anchor is never adjusted.
\<close>

theorem rotatePiece_applies:
  "(currentPiece s = None \<longrightarrow> rotatePiece s = s) \<and>
   (\<forall>cp. currentPiece s = Some cp \<longrightarrow>
      rotatePiece s =
        (if checkCollision (board s) (cp\<lparr>pshape := rotateMatrix (pshape cp)\<rparr>) (px cp) (py cp)
         then s
         else s\<lparr>currentPiece := Some (cp\<lparr>pshape := rotateMatrix (pshape cp)\<rparr>)\<rparr>)) \<and>
   (currentPiece0 t = None \<longrightarrow> rotatePiece0 t = t) \<and>
   (\<forall>cp. currentPiece0 t = Some cp \<longrightarrow>
      rotatePiece0 t =
        (if checkCollision0 (board0 t) (rotateMatrix (shape0 cp)) (x0 cp) (y0 cp)
         then t
         else t\<lparr>currentPiece0 := Some (cp\<lparr>shape0 := rotateMatrix (shape0 cp)\<rparr>)\<rparr>))"
  by (simp add: rotatePiece_def rotatePiece0_def Let_def)

text \<open>
  The T piece rotates in the open; the upright I piece in the last column does not, since its
  rotation would leave the board on the right.
\<close>

theorem rotatePiece_applies_witness:
  "currentPiece openState = Some demoPiece \<and>
   \<not> checkCollision (board openState) (demoPiece\<lparr>pshape := rotateMatrix (pshape demoPiece)\<rparr>)
        (px demoPiece) (py demoPiece) \<and>
   rotatePiece openState =
     openState\<lparr>currentPiece := Some (demoPiece\<lparr>pshape := rotateMatrix (pshape demoPiece)\<rparr>)\<rparr> \<and>
   currentPiece wallState = Some wallPiece \<and>
   checkCollision (board wallState) (wallPiece\<lparr>pshape := rotateMatrix (pshape wallPiece)\<rparr>)
        (px wallPiece) (py wallPiece) \<and>
   rotatePiece wallState = wallState \<and>
   currentPiece0 wallState0 = Some wallPiece0 \<and>
   checkCollision0 (board0 wallState0) (rotateMatrix (shape0 wallPiece0)) (x0 wallPiece0) (y0 wallPiece0) \<and>
   rotatePiece0 wallState0 = wallState0"
proof -
  have h: "currentPiece openState = Some demoPiece"
    "\<not> checkCollision (board openState) (demoPiece\<lparr>pshape := rotateMatrix (pshape demoPiece)\<rparr>)
        (px demoPiece) (py demoPiece)"
    "currentPiece wallState = Some wallPiece"
    "checkCollision (board wallState) (wallPiece\<lparr>pshape := rotateMatrix (pshape wallPiece)\<rparr>)
        (px wallPiece) (py wallPiece)"
    "currentPiece0 wallState0 = Some wallPiece0"
    "checkCollision0 (board0 wallState0) (rotateMatrix (shape0 wallPiece0)) (x0 wallPiece0) (y0 wallPiece0)"
    by code_simp+
  show ?thesis
    using h rotatePiece_applies [of openState openState0]
      rotatePiece_applies [of wallState wallState0]
    by simp
qed

text \<open>
  Claim C9 (lock). On a board of \<open>ROWS\<close> by \<open>COLS\<close> cells the lock returns a board of the same
  size, and a cell \<open>(r, c)\<close> of it holds the piece's marker if the shape has a nonzero cell at
  \<open>(r - y, c - x)\<close>, and its prior value otherwise; this holds for every anchor, also a negative
  one. Shape cells that fall outside the board, such as those above row 0, are written nowhere.
  \<^verbatim>\<open>page.tsx\<close> writes the piece's type, \<^verbatim>\<open>part_000\<close> the shape cell itself.
\<close>

theorem lockCells_in_bounds:
  assumes "wf_board b"
  shows "wf_board (lockCells b p) \<and>
         (\<forall>r<ROWS. \<forall>c<COLS. lockCells b p ! r ! c =
            (if shapeCell (pshape p) (int r - py p) (int c - px p) \<noteq> 0
             then ptype p else b ! r ! c)) \<and>
         wf_board (lockCells0 b p0) \<and>
         (\<forall>r<ROWS. \<forall>c<COLS. lockCells0 b p0 ! r ! c =
            (if shapeCell (shape0 p0) (int r - y0 p0) (int c - x0 p0) \<noteq> 0
             then shapeCell (shape0 p0) (int r - y0 p0) (int c - x0 p0) else b ! r ! c))"
  using assms by (simp add: lockCells_wf lockCells0_wf lockCells_nth lockCells0_nth)

text \<open>
  \<open>edgePiece\<close> has its anchor at \<open>(- 1, - 2)\<close>: three of its cells fall in row \<open>- 1\<close> and are
  dropped, one is written at \<open>(0, 0)\<close>. \<open>edgePiece0\<close> has its anchor at \<open>(9, - 1)\<close>: one cell is
  written at \<open>(0, 9)\<close>, the others fall above or right of the board.
\<close>

theorem lockCells_in_bounds_witness:
  "wf_board emptyBoard \<and>
   lockCells emptyBoard edgePiece = [3,0,0,0,0,0,0,0,0,0] # replicate 19 (replicate 10 0) \<and>
   lockCells0 emptyBoard edgePiece0 = [0,0,0,0,0,0,0,0,0,3] # replicate 19 (replicate 10 0) \<and>
   wf_board (lockCells emptyBoard edgePiece) \<and>
   lockCells emptyBoard edgePiece ! 0 ! 0 =
      (if shapeCell (pshape edgePiece) (int 0 - py edgePiece) (int 0 - px edgePiece) \<noteq> 0
       then ptype edgePiece else emptyBoard ! 0 ! 0) \<and>
   wf_board (lockCells0 emptyBoard edgePiece0) \<and>
   lockCells0 emptyBoard edgePiece0 ! 0 ! 9 =
      (if shapeCell (shape0 edgePiece0) (int 0 - y0 edgePiece0) (int 9 - x0 edgePiece0) \<noteq> 0
       then shapeCell (shape0 edgePiece0) (int 0 - y0 edgePiece0) (int 9 - x0 edgePiece0)
       else emptyBoard ! 0 ! 9)"
proof -
  have h: "wf_board emptyBoard" by code_simp
  have v: "lockCells emptyBoard edgePiece = [3,0,0,0,0,0,0,0,0,0] # replicate 19 (replicate 10 0)"
    by code_simp
  have v0: "lockCells0 emptyBoard edgePiece0 = [0,0,0,0,0,0,0,0,0,3] # replicate 19 (replicate 10 0)"
    by code_simp
  have i: "0 < ROWS" "0 < COLS" "9 < COLS" by code_simp+
  show ?thesis
    using h v v0 i lockCells_in_bounds [OF h, of edgePiece edgePiece0] by blast
qed

text \<open>
  Claim C10 (the loop of the hard drop). For a shape with a nonzero cell the loop returns: it
  reaches a \<open>y'\<close> at or below its start such that the next row collides and every row passed
  on the way is collision-free. For a shape without a cell it never returns. This holds for the
  loop of both files.
\<close>

theorem hardDrop_loop_terminates:
  "(hasCell (pshape cp) \<longrightarrow>
      (\<exists>y'. dropLoop brd cp y = Some y' \<and> y \<le> y' \<and>
            checkCollision brd cp (px cp) (y' + 1) \<and>
            (\<forall>k. y < k \<and> k \<le> y' \<longrightarrow> \<not> checkCollision brd cp (px cp) k))) \<and>
   (hasCell (pshape cp) \<and> currentPiece s = Some cp \<longrightarrow>
      (\<exists>s'. hardDrop rnd1 rnd2 s = Some s')) \<and>
   (\<not> hasCell (pshape cp) \<longrightarrow> dropLoop brd cp y = None) \<and>
   (hasCell (shape0 c) \<longrightarrow>
      (\<exists>y'. dropLoop0 brd c y = Some y' \<and> y \<le> y' \<and>
            checkCollision0 brd (shape0 c) (x0 c) (y' + 1) \<and>
            (\<forall>k. y < k \<and> k \<le> y' \<longrightarrow> \<not> checkCollision0 brd (shape0 c) (x0 c) k))) \<and>
   (hasCell (shape0 c) \<and> currentPiece0 t = Some c \<longrightarrow>
      (\<exists>t'. hardDrop0 rnd1 rnd2 t = Some t')) \<and>
   (\<not> hasCell (shape0 c) \<longrightarrow> dropLoop0 brd c y = None)"
proof (intro conjI impI)
  assume "hasCell (pshape cp)"
  then show "\<exists>y'. dropLoop brd cp y = Some y' \<and> y \<le> y' \<and>
            checkCollision brd cp (px cp) (y' + 1) \<and>
            (\<forall>k. y < k \<and> k \<le> y' \<longrightarrow> \<not> checkCollision brd cp (px cp) k)"
    by (rule dropLoop_terminates)
next
  assume "hasCell (pshape cp) \<and> currentPiece s = Some cp"
  then show "\<exists>s'. hardDrop rnd1 rnd2 s = Some s'"
    by (simp add: hardDrop_returns)
next
  assume "\<not> hasCell (pshape cp)"
  then show "dropLoop brd cp y = None" by (rule dropLoop_diverges)
next
  assume "hasCell (shape0 c)"
  then have "hasCell (pshape (asPiece c))" by (simp add: asPiece_def)
  from dropLoop_terminates [OF this, of brd y]
  show "\<exists>y'. dropLoop0 brd c y = Some y' \<and> y \<le> y' \<and>
            checkCollision0 brd (shape0 c) (x0 c) (y' + 1) \<and>
            (\<forall>k. y < k \<and> k \<le> y' \<longrightarrow> \<not> checkCollision0 brd (shape0 c) (x0 c) k)"
    by (simp add: dropLoop0_dropLoop checkCollision_asPiece) (simp add: asPiece_def)
next
  assume "hasCell (shape0 c) \<and> currentPiece0 t = Some c"
  then show "\<exists>t'. hardDrop0 rnd1 rnd2 t = Some t'"
    by (simp add: hardDrop0_returns)
next
  assume "\<not> hasCell (shape0 c)"
  then have "\<not> hasCell (pshape (asPiece c))" by (simp add: asPiece_def)
  then show "dropLoop0 brd c y = None"
    by (simp add: dropLoop0_dropLoop dropLoop_diverges)
qed

text \<open>
  On the empty board the T piece of \<^verbatim>\<open>page.tsx\<close> falls to \<open>y = 17\<close>, the T piece of
  \<^verbatim>\<open>part_000\<close> to \<open>y = 18\<close>, and the loop does not return for a blank shape.
\<close>

theorem hardDrop_loop_terminates_witness:
  "hasCell (pshape demoPiece) \<and> dropLoop emptyBoard demoPiece 0 = Some 17 \<and>
   (\<exists>y'. dropLoop emptyBoard demoPiece 0 = Some y' \<and> 0 \<le> y' \<and>
         checkCollision emptyBoard demoPiece (px demoPiece) (y' + 1) \<and>
         (\<forall>k. 0 < k \<and> k \<le> y' \<longrightarrow> \<not> checkCollision emptyBoard demoPiece (px demoPiece) k)) \<and>
   currentPiece openState = Some demoPiece \<and> (\<exists>s'. hardDrop 0 0 openState = Some s') \<and>
   hasCell (shape0 demoPiece0) \<and> dropLoop0 emptyBoard demoPiece0 0 = Some 18 \<and>
   currentPiece0 openState0 = Some demoPiece0 \<and> (\<exists>t'. hardDrop0 0 0 openState0 = Some t') \<and>
   \<not> hasCell (pshape blankPiece) \<and> dropLoop emptyBoard blankPiece 0 = None \<and>
   \<not> hasCell (shape0 blankPiece0) \<and> dropLoop0 emptyBoard blankPiece0 0 = None"
proof -
  have h: "hasCell (pshape demoPiece)" "hasCell (shape0 demoPiece0)"
    "\<not> hasCell (pshape blankPiece)" "\<not> hasCell (shape0 blankPiece0)"
    "currentPiece openState = Some demoPiece" "currentPiece0 openState0 = Some demoPiece0"
    by code_simp+
  have v: "dropLoop emptyBoard demoPiece 0 = Some 17" "dropLoop0 emptyBoard demoPiece0 0 = Some 18"
    by code_simp+
  show ?thesis
    using h v
      hardDrop_loop_terminates [of demoPiece emptyBoard 0 openState 0 0 demoPiece0 openState0]
      hardDrop_loop_terminates [of blankPiece emptyBoard 0 openState 0 0 blankPiece0 openState0]
    by blast
qed

end
